theory Spec2Isabelle
  imports Complex_Main "HOL-Library.Sublist" "HOL-Library.Multiset"
begin

section \<open>Python strings\<close>

text \<open>
  A Python \<open>str\<close> is a sequence of Unicode code points; a code point is a natural
  number. \<open>ustr\<close> turns a literal into such a sequence.
\<close>

type_synonym pystr = "nat list"

definition ustr :: "string \<Rightarrow> pystr" where
  "ustr = map of_char"

text \<open>
  The characters \<open>str.isspace\<close>, \<open>str.strip()\<close>, \<open>str.split()\<close> and the pattern
  \<open>\s\<close> treat as whitespace (CPython 3.11, Unicode 14).
\<close>

definition py_isspace :: "nat \<Rightarrow> bool" where
  "py_isspace c =
     (c \<in> set [9, 10, 11, 12, 13, 28, 29, 30, 31, 32, 133, 160, 5760, 8232, 8233, 8239, 8287, 12288]
      \<or> (8192 \<le> c \<and> c \<le> 8202))"

text \<open>
  The characters the pattern \<open>\d\<close> matches in a \<open>str\<close>: Unicode category Nd. Every
  block holds ten digits, but the mathematical digits from U+1D7CE, which are fifty.
\<close>

definition nd_blocks :: "nat list" where
  "nd_blocks =
     [0x30, 0x660, 0x6F0, 0x7C0, 0x966, 0x9E6, 0xA66, 0xAE6, 0xB66, 0xBE6, 0xC66, 0xCE6,
      0xD66, 0xDE6, 0xE50, 0xED0, 0xF20, 0x1040, 0x1090, 0x17E0, 0x1810, 0x1946, 0x19D0,
      0x1A80, 0x1A90, 0x1B50, 0x1BB0, 0x1C40, 0x1C50, 0xA620, 0xA8D0, 0xA900, 0xA9D0,
      0xA9F0, 0xAA50, 0xABF0, 0xFF10, 0x104A0, 0x10D30, 0x11066, 0x110F0, 0x11136,
      0x111D0, 0x112F0, 0x11450, 0x114D0, 0x11650, 0x116C0, 0x11730, 0x118E0, 0x11950,
      0x11C50, 0x11D50, 0x11DA0, 0x16A60, 0x16AC0, 0x16B50, 0x1D7CE, 0x1D7D8, 0x1D7E2,
      0x1D7EC, 0x1D7F6, 0x1E140, 0x1E2F0, 0x1E950, 0x1FBF0]"

definition py_isdecimal :: "nat \<Rightarrow> bool" where
  "py_isdecimal c = (\<exists>b \<in> set nd_blocks. b \<le> c \<and> c < b + 10)"

definition is_ascii_digit :: "nat \<Rightarrow> bool" where
  "is_ascii_digit c = (48 \<le> c \<and> c \<le> 57)"

definition py_strip :: "pystr \<Rightarrow> pystr" where
  "py_strip s = rev (dropWhile py_isspace (rev (dropWhile py_isspace s)))"

text \<open>\<open>s.split()\<close>: the maximal runs of characters that are not whitespace.\<close>

fun split_acc :: "pystr \<Rightarrow> pystr \<Rightarrow> pystr list" where
  "split_acc cur [] = (if cur = [] then [] else [cur])"
| "split_acc cur (c # cs) =
     (if py_isspace c then (if cur = [] then split_acc [] cs else cur # split_acc [] cs)
      else split_acc (cur @ [c]) cs)"

definition py_split :: "pystr \<Rightarrow> pystr list" where
  "py_split s = split_acc [] s"

text \<open>\<open>s.split(sep)\<close> for a separator of one character: empty pieces are kept.\<close>

fun split_on :: "nat \<Rightarrow> pystr \<Rightarrow> pystr list" where
  "split_on sep [] = [[]]"
| "split_on sep (c # cs) =
     (if c = sep then [] # split_on sep cs
      else (case split_on sep cs of [] \<Rightarrow> [[c]] | w # ws \<Rightarrow> (c # w) # ws))"

text \<open>\<open>sep.join(parts)\<close>.\<close>

fun join :: "pystr \<Rightarrow> pystr list \<Rightarrow> pystr" where
  "join sep [] = []"
| "join sep [x] = x"
| "join sep (x # y # ys) = x @ sep @ join sep (y # ys)"

text \<open>
  \<open>s.replace(old, new)\<close>: the occurrences of \<open>old\<close> are replaced from the left, without
  overlap; the counter is the number of characters of the current occurrence still to skip.
\<close>

fun replace_from :: "pystr \<Rightarrow> pystr \<Rightarrow> nat \<Rightarrow> pystr \<Rightarrow> pystr" where
  "replace_from old new k [] = []"
| "replace_from old new (Suc k) (c # cs) = replace_from old new k cs"
| "replace_from old new 0 (c # cs) =
     (if prefix old (c # cs) then new @ replace_from old new (length old - 1) cs
      else c # replace_from old new 0 cs)"

definition py_replace :: "pystr \<Rightarrow> pystr \<Rightarrow> pystr \<Rightarrow> pystr" where
  "py_replace old new s =
     (if old = [] then new @ concat (map (\<lambda>c. c # new) s) else replace_from old new 0 s)"

text \<open>The decimal digits of a natural number, and \<open>str(i)\<close> of an integer.\<close>

fun dec_nat :: "nat \<Rightarrow> pystr" where
  "dec_nat n = (if n < 10 then [48 + n] else dec_nat (n div 10) @ [48 + n mod 10])"

declare dec_nat.simps [simp del]

definition dec_int :: "int \<Rightarrow> pystr" where
  "dec_int i = (if i < 0 then 45 # dec_nat (nat (- i)) else dec_nat (nat i))"

section \<open>Python values and exceptions\<close>

text \<open>
  A binary64 float: a finite value, \<open>m\<close> times 2 to the power \<open>e\<close> with a sign bit (sign, mantissa, exponent), an
  infinity with its sign, or NaN.
\<close>

datatype pyfloat = Fin bool nat int | Inf bool | NaN

text \<open>
  The values \<open>json.loads\<close> produces: \<open>None\<close>, \<open>bool\<close>, \<open>int\<close>, \<open>float\<close>, \<open>str\<close>,
  \<open>list\<close> and \<open>dict\<close> (keys are strings, in insertion order, each once).
\<close>

datatype pyval =
    PNone
  | PBool bool
  | PInt int
  | PFloat pyfloat
  | PStr pystr
  | PList "pyval list"
  | PDict "(pystr \<times> pyval) list"

text \<open>
  An exception of class \<open>Exception\<close>, with the text \<open>str(e)\<close> gives. \<open>HTTPStatusError\<close>
  carries the response it was raised for: after its status code and its text comes the
  body of that response, as received.
  \<open>External\<close> is any other exception a collaborator raises (its class name, its text).
\<close>

datatype exn =
    TypeError pystr
  | AttributeError pystr
  | ValueError pystr
  | KeyError pystr
  | IndexError pystr
  | OverflowError pystr
  | RuntimeError pystr
  | JSONDecodeError pystr
  | HTTPStatusError nat pystr pystr
  | External pystr pystr

fun exn_str :: "exn \<Rightarrow> pystr" where
  "exn_str (TypeError m) = m"
| "exn_str (AttributeError m) = m"
| "exn_str (ValueError m) = m"
| "exn_str (KeyError m) = m"
| "exn_str (IndexError m) = m"
| "exn_str (OverflowError m) = m"
| "exn_str (RuntimeError m) = m"
| "exn_str (JSONDecodeError m) = m"
| "exn_str (HTTPStatusError st m b) = m"
| "exn_str (External c m) = m"

text \<open>Sequencing of steps that may raise: the first exception ends the computation.\<close>

definition bind :: "exn + 'a \<Rightarrow> ('a \<Rightarrow> exn + 'b) \<Rightarrow> exn + 'b" where
  "bind m f = (case m of Inl e \<Rightarrow> Inl e | Inr x \<Rightarrow> f x)"

fun map_raise :: "('a \<Rightarrow> exn + 'b) \<Rightarrow> 'a list \<Rightarrow> exn + 'b list" where
  "map_raise f [] = Inr []"
| "map_raise f (x # xs) =
     (case f x of Inl e \<Rightarrow> Inl e
      | Inr y \<Rightarrow> (case map_raise f xs of Inl e \<Rightarrow> Inl e | Inr ys \<Rightarrow> Inr (y # ys)))"

fun type_name :: "pyval \<Rightarrow> pystr" where
  "type_name PNone = ustr ''NoneType''"
| "type_name (PBool b) = ustr ''bool''"
| "type_name (PInt i) = ustr ''int''"
| "type_name (PFloat x) = ustr ''float''"
| "type_name (PStr s) = ustr ''str''"
| "type_name (PList xs) = ustr ''list''"
| "type_name (PDict kvs) = ustr ''dict''"

text \<open>Truth value of an object, as \<open>not x\<close> and \<open>if x\<close> test it.\<close>

fun truthy :: "pyval \<Rightarrow> bool" where
  "truthy PNone = False"
| "truthy (PBool b) = b"
| "truthy (PInt i) = (i \<noteq> 0)"
| "truthy (PFloat (Fin s m e)) = (m \<noteq> 0)"
| "truthy (PFloat x) = True"
| "truthy (PStr s) = (s \<noteq> [])"
| "truthy (PList xs) = (xs \<noteq> [])"
| "truthy (PDict kvs) = (kvs \<noteq> [])"

text \<open>\<open>d.get(key, default)\<close> and \<open>d[key] = v\<close> on the pairs of a dict.\<close>

definition dict_get :: "(pystr \<times> pyval) list \<Rightarrow> pystr \<Rightarrow> pyval \<Rightarrow> pyval" where
  "dict_get kvs k dflt = (case map_of kvs k of None \<Rightarrow> dflt | Some v \<Rightarrow> v)"

fun dict_set :: "pystr \<Rightarrow> pyval \<Rightarrow> (pystr \<times> pyval) list \<Rightarrow> (pystr \<times> pyval) list" where
  "dict_set k v [] = [(k, v)]"
| "dict_set k v ((k', v') # kvs) =
     (if k = k' then (k, v) # kvs else (k', v') # dict_set k v kvs)"

text \<open>
  The text of a float, a list or a dict (\<open>str\<close>, \<open>repr\<close>) and \<open>json.dumps\<close> are functions
  of the Python library that no property below depends on: they are parameters.
\<close>

record pylib =
  repr_text :: "pyval \<Rightarrow> pystr"
  dumps_text :: "pyval \<Rightarrow> pystr"

fun py_str :: "pylib \<Rightarrow> pyval \<Rightarrow> pystr" where
  "py_str L PNone = ustr ''None''"
| "py_str L (PBool b) = (if b then ustr ''True'' else ustr ''False'')"
| "py_str L (PInt i) = dec_int i"
| "py_str L (PStr s) = s"
| "py_str L v = repr_text L v"

section \<open>Floats: conversion from decimal and fixed-point formatting\<close>

text \<open>The number of binary digits of a natural number.\<close>

fun bitlen :: "nat \<Rightarrow> nat" where
  "bitlen n = (if n = 0 then 0 else Suc (bitlen (n div 2)))"

declare bitlen.simps [simp del]

text \<open>
  \<open>round_ratio a b e\<close>: the integer nearest to \<open>a / (b * 2 ^ e)\<close>, ties to even (the rounding of
  IEEE 754 and of Python's float formatting).
\<close>

definition round_qr :: "nat \<Rightarrow> nat \<Rightarrow> nat \<Rightarrow> nat" where
  "round_qr q r den =
     (if 2 * r < den then q
      else if den < 2 * r then q + 1
      else if even q then q else q + 1)"

definition round_div :: "nat \<Rightarrow> nat \<Rightarrow> nat" where
  "round_div num den = round_qr (num div den) (num mod den) den"

definition round_ratio :: "nat \<Rightarrow> nat \<Rightarrow> int \<Rightarrow> nat" where
  "round_ratio a b e =
     (if e < 0 then round_div (a * 2 ^ nat (- e)) b else round_div a (b * 2 ^ nat e))"

text \<open>\<open>ilog2_ratio a b\<close>: the integer \<open>e\<close> with \<open>2 ^ e \<le> a / b < 2 ^ (e + 1)\<close>, for positive \<open>a\<close>, \<open>b\<close>.\<close>

definition ilog2_adjust :: "nat \<Rightarrow> nat \<Rightarrow> int \<Rightarrow> int" where
  "ilog2_adjust a b e0 =
     (if (if e0 < 0 then b \<le> a * 2 ^ nat (- e0) else b * 2 ^ nat e0 \<le> a) then e0 else e0 - 1)"

definition ilog2_ratio :: "nat \<Rightarrow> nat \<Rightarrow> int" where
  "ilog2_ratio a b = ilog2_adjust a b (int (bitlen a) - int (bitlen b))"

text \<open>
  The binary64 value nearest to \<open>a / b\<close>, with the sign given (\<open>float(text)\<close> is
  correctly rounded): the unit in the last place is \<open>2 ^ (e - 52)\<close>, with \<open>e\<close> at least
  -1022 (subnormal numbers); a result of \<open>2 ^ 1024\<close> or more is an infinity.
\<close>

definition pack64 :: "bool \<Rightarrow> nat \<Rightarrow> int \<Rightarrow> pyfloat" where
  "pack64 neg m e = (if 1024 < int (bitlen m) + e then Inf neg else Fin neg m e)"

definition round_at :: "bool \<Rightarrow> nat \<Rightarrow> nat \<Rightarrow> int \<Rightarrow> pyfloat" where
  "round_at neg a b e = pack64 neg (round_ratio a b e) e"

definition to_binary64 :: "bool \<Rightarrow> nat \<Rightarrow> nat \<Rightarrow> pyfloat" where
  "to_binary64 neg a b =
     (if a = 0 then Fin neg 0 0 else round_at neg a b (max (ilog2_ratio a b) (- 1022) - 52))"

text \<open>The float of the decimal \<open>n * 10 ^ k\<close>, with the sign given.\<close>

definition float_of_decimal :: "bool \<Rightarrow> nat \<Rightarrow> int \<Rightarrow> pyfloat" where
  "float_of_decimal neg n k =
     (if k < 0 then to_binary64 neg n (10 ^ nat (- k)) else to_binary64 neg (n * 10 ^ nat k) 1)"

text \<open>\<open>float(i)\<close> of an integer: OverflowError when the result is not finite.\<close>

definition float_of_int :: "int \<Rightarrow> exn + pyfloat" where
  "float_of_int i =
     (case to_binary64 (i < 0) (nat \<bar>i\<bar>) 1 of
        Fin s m e \<Rightarrow> Inr (Fin s m e)
      | _ \<Rightarrow> Inl (OverflowError (ustr ''int too large to convert to float'')))"

text \<open>The number a finite float denotes.\<close>

definition fin_val :: "bool \<Rightarrow> nat \<Rightarrow> int \<Rightarrow> rat" where
  "fin_val s m e = (if s then - 1 else 1) * of_nat m * (if e < 0 then 1 / 2 ^ nat (- e) else 2 ^ nat e)"

text \<open>\<open>format(x, ".3f")\<close> of a float: three decimals, ties to even, the sign bit shown.\<close>

definition pad3 :: "nat \<Rightarrow> pystr" where
  "pad3 n = (if n < 10 then ustr ''00'' else if n < 100 then ustr ''0'' else []) @ dec_nat n"

definition fixed3 :: "bool \<Rightarrow> nat \<Rightarrow> pystr" where
  "fixed3 s n = (if s then ustr ''-'' else []) @ dec_nat (n div 1000) @ ustr ''.'' @ pad3 (n mod 1000)"

fun format_3f :: "pyfloat \<Rightarrow> pystr" where
  "format_3f (Fin s m e) = fixed3 s (round_ratio (m * 1000) 1 (- e))"
| "format_3f (Inf s) = (if s then ustr ''-inf'' else ustr ''inf'')"
| "format_3f NaN = ustr ''nan''"

section \<open>json.loads\<close>

text \<open>
  The decoder of the \<open>json\<close> module (CPython 3.11, the C scanner), in two passes over the
  text: the lexical pass reads punctuation, strings, numbers and the literals; the second
  pass builds the value from the tokens with a stack. Two scalars never stand side by
  side in a JSON text, so the split into two passes accepts the texts the decoder accepts.
  \<open>None\<close> is the decoder raising \<open>JSONDecodeError\<close>.

  Two limits of the interpreter are outside the model, which has unbounded integers and
  an unbounded stack: an integer literal of more than 4300 digits (the decoder raises
  \<open>ValueError\<close>, not \<open>JSONDecodeError\<close>, under the default limit of integer string
  conversion) and a nesting deeper than the recursion limit (\<open>RecursionError\<close>). The
  model gives a value for such a text. What is proved below of the decoder holds of the
  program for the texts within these two limits.
\<close>

datatype jtok = TLBrace | TRBrace | TLBrack | TRBrack | TComma | TColon | TScalar pyval

definition digit_val :: "nat \<Rightarrow> nat" where
  "digit_val c = c - 48"

definition nat_of_digits :: "pystr \<Rightarrow> nat" where
  "nat_of_digits ds = foldl (\<lambda>n d. 10 * n + digit_val d) 0 ds"

definition hex_val :: "nat \<Rightarrow> nat option" where
  "hex_val c =
     (if 48 \<le> c \<and> c \<le> 57 then Some (c - 48)
      else if 97 \<le> c \<and> c \<le> 102 then Some (c - 87)
      else if 65 \<le> c \<and> c \<le> 70 then Some (c - 55)
      else None)"

text \<open>The four hexadecimal digits of a \<open>\uXXXX\<close> escape, and the text after them.\<close>

fun hex4 :: "pystr \<Rightarrow> (nat \<times> pystr) option" where
  "hex4 (a # b # c # d # rest) =
     (case (hex_val a, hex_val b, hex_val c, hex_val d) of
        (Some x, Some y, Some z, Some w) \<Rightarrow> Some (((x * 16 + y) * 16 + z) * 16 + w, rest)
      | _ \<Rightarrow> None)"
| "hex4 _ = None"

definition simple_escape :: "nat \<Rightarrow> nat option" where
  "simple_escape c =
     (if c = 34 then Some 34 else if c = 92 then Some 92 else if c = 47 then Some 47
      else if c = 98 then Some 8 else if c = 102 then Some 12 else if c = 110 then Some 10
      else if c = 114 then Some 13 else if c = 116 then Some 9 else None)"

text \<open>
  The escape \<open>\uXXXX\<close>, read from after the \<open>u\<close>. A high surrogate followed by an escape
  of a low surrogate is joined with it into one code point; a surrogate alone is kept.
\<close>

definition unicode_escape :: "pystr \<Rightarrow> (nat \<times> pystr) option" where
  "unicode_escape s =
     (case hex4 s of
        None \<Rightarrow> None
      | Some (c, rest) \<Rightarrow>
          if 0xD800 \<le> c \<and> c \<le> 0xDBFF \<and> 6 < length rest \<and> take 2 rest = [92, 117] then
            (case hex4 (drop 2 rest) of
               None \<Rightarrow> None
             | Some (c2, rest2) \<Rightarrow>
                 if 0xDC00 \<le> c2 \<and> c2 \<le> 0xDFFF
                 then Some (0x10000 + (c - 0xD800) * 1024 + (c2 - 0xDC00), rest2)
                 else Some (c, rest))
          else Some (c, rest))"

text \<open>
  A string, read from after its opening quote (strict mode: a control character ends the
  parse): the characters read so far, the text still to read; the result is the string
  and the text after its closing quote.
\<close>

function scan_string :: "pystr \<Rightarrow> pystr \<Rightarrow> (pystr \<times> pystr) option" where
  "scan_string acc [] = None"
| "scan_string acc (c # cs) =
     (if c = 34 then Some (acc, cs)
      else if c = 92 then
        (case cs of
           [] \<Rightarrow> None
         | e # es \<Rightarrow>
             if e = 117 then
               (case unicode_escape es of
                  None \<Rightarrow> None
                | Some (u, rest) \<Rightarrow>
                    if length rest < length es then scan_string (acc @ [u]) rest else None)
             else (case simple_escape e of
                     None \<Rightarrow> None
                   | Some x \<Rightarrow> scan_string (acc @ [x]) es))
      else if c < 32 then None
      else scan_string (acc @ [c]) cs)"
  by pat_completeness auto
termination
  by (relation "measure (\<lambda>(acc, s). length s)") auto

text \<open>
  A number, as the scanner matches it: an optional minus, \<open>0\<close> or a digit from 1 to 9
  with more digits, a fraction if a digit follows the point, an exponent if a digit
  follows \<open>e\<close> and its sign. Without fraction and exponent the value is an \<open>int\<close>,
  otherwise the \<open>float\<close> of the decimal.
\<close>

definition scan_int_part :: "pystr \<Rightarrow> (pystr \<times> pystr) option" where
  "scan_int_part s =
     (case s of
        [] \<Rightarrow> None
      | d # ds \<Rightarrow>
          if d = 48 then Some ([d], ds)
          else if is_ascii_digit d
          then Some (d # takeWhile is_ascii_digit ds, dropWhile is_ascii_digit ds)
          else None)"

definition scan_frac :: "pystr \<Rightarrow> pystr \<times> pystr" where
  "scan_frac s =
     (case s of
        p # f # fs \<Rightarrow>
          if p = 46 \<and> is_ascii_digit f
          then (takeWhile is_ascii_digit (f # fs), dropWhile is_ascii_digit (f # fs))
          else ([], s)
      | _ \<Rightarrow> ([], s))"

definition exp_digits :: "bool \<Rightarrow> pystr \<Rightarrow> pystr \<Rightarrow> int option \<times> pystr" where
  "exp_digits neg ds s =
     (if takeWhile is_ascii_digit ds = [] then (None, s)
      else (Some (if neg then - int (nat_of_digits (takeWhile is_ascii_digit ds))
                  else int (nat_of_digits (takeWhile is_ascii_digit ds))),
            dropWhile is_ascii_digit ds))"

definition scan_exp :: "pystr \<Rightarrow> int option \<times> pystr" where
  "scan_exp s =
     (case s of
        [] \<Rightarrow> (None, s)
      | e # es \<Rightarrow>
          if e = 101 \<or> e = 69 then
            (case es of
               [] \<Rightarrow> (None, s)
             | sg # ds \<Rightarrow>
                 if sg = 45 \<or> sg = 43 then exp_digits (sg = 45) ds s else exp_digits False es s)
          else (None, s))"

definition number_value :: "bool \<Rightarrow> pystr \<Rightarrow> pystr \<Rightarrow> int option \<Rightarrow> pyval" where
  "number_value neg ip fp ex =
     (if fp = [] \<and> ex = None
      then PInt (if neg then - int (nat_of_digits ip) else int (nat_of_digits ip))
      else PFloat (float_of_decimal neg (nat_of_digits (ip @ fp))
                     ((case ex of None \<Rightarrow> 0 | Some k \<Rightarrow> k) - int (length fp))))"

definition scan_unsigned :: "bool \<Rightarrow> pystr \<Rightarrow> (pyval \<times> pystr) option" where
  "scan_unsigned neg s =
     (case scan_int_part s of
        None \<Rightarrow> None
      | Some (ip, s2) \<Rightarrow>
          (case scan_frac s2 of
             (fp, s3) \<Rightarrow>
               (case scan_exp s3 of
                  (ex, s4) \<Rightarrow> Some (number_value neg ip fp ex, s4))))"

definition scan_number :: "pystr \<Rightarrow> (pyval \<times> pystr) option" where
  "scan_number s = (if take 1 s = [45] then scan_unsigned True (drop 1 s) else scan_unsigned False s)"

text \<open>A scalar that is not a string: a literal or a number.\<close>

definition scan_scalar :: "pystr \<Rightarrow> (pyval \<times> pystr) option" where
  "scan_scalar s =
     (if prefix (ustr ''null'') s then Some (PNone, drop 4 s)
      else if prefix (ustr ''true'') s then Some (PBool True, drop 4 s)
      else if prefix (ustr ''false'') s then Some (PBool False, drop 5 s)
      else if prefix (ustr ''NaN'') s then Some (PFloat NaN, drop 3 s)
      else if prefix (ustr ''Infinity'') s then Some (PFloat (Inf False), drop 8 s)
      else if prefix (ustr ''-Infinity'') s then Some (PFloat (Inf True), drop 9 s)
      else scan_number s)"

function lex :: "pystr \<Rightarrow> jtok list option" where
  "lex [] = Some []"
| "lex (c # cs) =
     (if c = 32 \<or> c = 9 \<or> c = 10 \<or> c = 13 then lex cs
      else if c = 123 then map_option ((#) TLBrace) (lex cs)
      else if c = 125 then map_option ((#) TRBrace) (lex cs)
      else if c = 91 then map_option ((#) TLBrack) (lex cs)
      else if c = 93 then map_option ((#) TRBrack) (lex cs)
      else if c = 44 then map_option ((#) TComma) (lex cs)
      else if c = 58 then map_option ((#) TColon) (lex cs)
      else if c = 34 then
        (case scan_string [] cs of
           None \<Rightarrow> None
         | Some (str, rest) \<Rightarrow>
             if length rest \<le> length cs then map_option ((#) (TScalar (PStr str))) (lex rest)
             else None)
      else
        (case scan_scalar (c # cs) of
           None \<Rightarrow> None
         | Some (v, rest) \<Rightarrow>
             if length rest \<le> length cs then map_option ((#) (TScalar v)) (lex rest)
             else None))"
  by pat_completeness auto
termination
  by (relation "measure length") auto

text \<open>
  The second pass. A frame of the stack is a list or a dict under construction (a dict
  with the key whose value is being read); the state says what may come next.
\<close>

datatype jframe = FList "pyval list" | FDict "(pystr \<times> pyval) list" pystr

datatype jstate =
    SValue
  | SListStart
  | SDictStart
  | SKey
  | SColon
  | SAfter
  | SDone pyval

text \<open>A value is complete: it is the result, or it goes into the container on top.\<close>

fun put_value :: "pyval \<Rightarrow> jframe list \<Rightarrow> (jframe list \<times> jstate) option" where
  "put_value v [] = Some ([], SDone v)"
| "put_value v (FList xs # st) = Some (FList (xs @ [v]) # st, SAfter)"
| "put_value v (FDict kvs k # st) = Some (FDict (dict_set k v kvs) k # st, SAfter)"

definition start_value :: "jframe list \<Rightarrow> jtok \<Rightarrow> (jframe list \<times> jstate) option" where
  "start_value st t =
     (case t of
        TScalar v \<Rightarrow> put_value v st
      | TLBrack \<Rightarrow> Some (FList [] # st, SListStart)
      | TLBrace \<Rightarrow> Some (FDict [] [] # st, SDictStart)
      | _ \<Rightarrow> None)"

definition close_top :: "jframe list \<Rightarrow> jtok \<Rightarrow> (jframe list \<times> jstate) option" where
  "close_top st t =
     (case st of
        FList xs # st' \<Rightarrow> (if t = TRBrack then put_value (PList xs) st' else None)
      | FDict kvs k # st' \<Rightarrow> (if t = TRBrace then put_value (PDict kvs) st' else None)
      | [] \<Rightarrow> None)"

definition read_key :: "jframe list \<Rightarrow> jtok \<Rightarrow> (jframe list \<times> jstate) option" where
  "read_key st t =
     (case st of
        FDict kvs k # st' \<Rightarrow>
          (case t of TScalar (PStr key) \<Rightarrow> Some (FDict kvs key # st', SColon) | _ \<Rightarrow> None)
      | _ \<Rightarrow> None)"

definition jstep :: "jframe list \<times> jstate \<Rightarrow> jtok \<Rightarrow> (jframe list \<times> jstate) option" where
  "jstep cfg t =
     (case cfg of (st, q) \<Rightarrow>
        (case q of
           SValue \<Rightarrow> start_value st t
         | SListStart \<Rightarrow> (if t = TRBrack then close_top st t else start_value st t)
         | SDictStart \<Rightarrow> (if t = TRBrace then close_top st t else read_key st t)
         | SKey \<Rightarrow> read_key st t
         | SColon \<Rightarrow> (if t = TColon then Some (st, SValue) else None)
         | SAfter \<Rightarrow>
             (if t = TComma then
                (case st of
                   FList xs # st' \<Rightarrow> Some (st, SValue)
                 | FDict kvs k # st' \<Rightarrow> Some (st, SKey)
                 | [] \<Rightarrow> None)
              else close_top st t)
         | SDone v \<Rightarrow> None))"

fun jrun :: "jframe list \<times> jstate \<Rightarrow> jtok list \<Rightarrow> pyval option" where
  "jrun cfg [] = (case snd cfg of SDone v \<Rightarrow> Some v | _ \<Rightarrow> None)"
| "jrun cfg (t # ts) = (case jstep cfg t of None \<Rightarrow> None | Some cfg' \<Rightarrow> jrun cfg' ts)"

definition json_loads :: "pystr \<Rightarrow> pyval option" where
  "json_loads s = (case lex s of None \<Rightarrow> None | Some ts \<Rightarrow> jrun ([], SValue) ts)"

section \<open>Regular expressions\<close>

text \<open>
  The patterns of the source, as data, and the backtracking matcher of \<open>re\<close>: \<open>rmatch r s\<close>
  lists the ways \<open>r\<close> matches a prefix of \<open>s\<close> in the order the matcher tries them (the
  captured groups and the text left), so its first element is the match \<open>re\<close> finds at
  this position. Repetition is over a character class, greedy (\<open>Star\<close>, \<open>Plus\<close>) or lazy;
  \<open>Eol\<close> is \<open>$\<close> under \<open>re.MULTILINE\<close>; \<open>LitI\<close> is a literal under \<open>re.IGNORECASE\<close>, given
  in lower case (the letters used below have their upper-case letter as only other form).
  The patterns below have no group inside a group or an alternative.
\<close>

datatype rx =
    Lit pystr
  | LitI pystr
  | Cls "nat \<Rightarrow> bool"
  | Opt rx
  | Star "nat \<Rightarrow> bool"
  | Plus "nat \<Rightarrow> bool"
  | StarLazy "nat \<Rightarrow> bool"
  | PlusLazy "nat \<Rightarrow> bool"
  | Seq rx rx
  | Alt rx rx
  | Grp rx
  | Eol

definition ascii_lower :: "nat \<Rightarrow> nat" where
  "ascii_lower c = (if 65 \<le> c \<and> c \<le> 90 then c + 32 else c)"

text \<open>The texts left after zero, one, two, ... characters of the class.\<close>

fun rests :: "(nat \<Rightarrow> bool) \<Rightarrow> pystr \<Rightarrow> pystr list" where
  "rests P [] = [[]]"
| "rests P (c # cs) = (c # cs) # (if P c then rests P cs else [])"

fun rmatch :: "rx \<Rightarrow> pystr \<Rightarrow> (pystr list \<times> pystr) list" where
  "rmatch (Lit l) s = (if prefix l s then [([], drop (length l) s)] else [])"
| "rmatch (LitI l) s =
     (if length l \<le> length s \<and> map ascii_lower (take (length l) s) = l
      then [([], drop (length l) s)] else [])"
| "rmatch (Cls P) s = (case s of [] \<Rightarrow> [] | c # cs \<Rightarrow> if P c then [([], cs)] else [])"
| "rmatch (Opt r) s = rmatch r s @ [([], s)]"
| "rmatch (Star P) s = map (Pair []) (rev (rests P s))"
| "rmatch (Plus P) s = map (Pair []) (rev (tl (rests P s)))"
| "rmatch (StarLazy P) s = map (Pair []) (rests P s)"
| "rmatch (PlusLazy P) s = map (Pair []) (tl (rests P s))"
| "rmatch (Seq a b) s =
     concat (map (\<lambda>(g1, r1). map (\<lambda>(g2, r2). (g1 @ g2, r2)) (rmatch b r1)) (rmatch a s))"
| "rmatch (Alt a b) s = rmatch a s @ rmatch b s"
| "rmatch (Grp r) s = map (\<lambda>(g, rest). (g @ [take (length s - length rest) s], rest)) (rmatch r s)"
| "rmatch Eol s = (case s of [] \<Rightarrow> [([], s)] | c # cs \<Rightarrow> if c = 10 then [([], s)] else [])"

fun seqs :: "rx list \<Rightarrow> rx" where
  "seqs [] = Lit []"
| "seqs [r] = r"
| "seqs (r # rs) = Seq r (seqs rs)"

text \<open>
  \<open>re.search\<close>: the match at the leftmost position that has one; the result is the text
  matched (group 0) and the captured groups.
\<close>

fun re_search :: "rx \<Rightarrow> pystr \<Rightarrow> (pystr \<times> pystr list) option" where
  "re_search r [] = (case rmatch r [] of [] \<Rightarrow> None | (g, rest) # ms \<Rightarrow> Some ([], g))"
| "re_search r (c # cs) =
     (case rmatch r (c # cs) of
        [] \<Rightarrow> re_search r cs
      | (g, rest) # ms \<Rightarrow> Some (take (length (c # cs) - length rest) (c # cs), g))"

text \<open>
  \<open>pattern.finditer\<close>, for a pattern that matches no empty text: the groups of the matches
  from left to right, each search starting where the match before ended. The counter is
  the number of characters of the last match still to skip.
\<close>

fun finditer_from :: "rx \<Rightarrow> nat \<Rightarrow> pystr \<Rightarrow> pystr list list" where
  "finditer_from r k [] = []"
| "finditer_from r (Suc k) (c # cs) = finditer_from r k cs"
| "finditer_from r 0 (c # cs) =
     (case rmatch r (c # cs) of
        [] \<Rightarrow> finditer_from r 0 cs
      | (g, rest) # ms \<Rightarrow> g # finditer_from r (length cs - length rest) cs)"

definition finditer :: "rx \<Rightarrow> pystr \<Rightarrow> pystr list list" where
  "finditer r s = finditer_from r 0 s"

text \<open>\<open>match.group(n)\<close> for \<open>n\<close> from 1.\<close>

definition group :: "pystr list \<Rightarrow> nat \<Rightarrow> pystr" where
  "group g n = (if 0 < n \<and> n \<le> length g then g ! (n - 1) else [])"

definition any_char :: "nat \<Rightarrow> bool" where
  "any_char c = True"

definition not_newline :: "nat \<Rightarrow> bool" where
  "not_newline c = (c \<noteq> 10)"

section \<open>utils/code\_analyzer.py: the response normalizer\<close>

record parsed =
  bug_lines :: "pystr list"
  explanations :: "pystr list"
  corrected_code :: pyval

text \<open>\<open>_truncate(text, max_words)\<close>.\<close>

definition truncate_words :: "pystr \<Rightarrow> nat \<Rightarrow> pystr" where
  "truncate_words txt max_words =
     (if length (py_split txt) \<le> max_words then txt
      else join (ustr '' '') (take max_words (py_split txt)))"

text \<open>
  The pattern of \<open>_fallback_parse\<close> for a reported line,
  \<open>[Ll]ine\s+(\d+)\s*[:\-\u2013]\s*(.+?)(?:\n|$)\<close> under \<open>re.MULTILINE\<close>, and the one for the
  corrected code, \<open>Corrected Code:?\s*```(?:cpp|c)?\n?(.*?)```\<close> under \<open>re.DOTALL\<close> and
  \<open>re.IGNORECASE\<close>.
\<close>

definition line_pattern :: rx where
  "line_pattern =
     seqs [Cls (\<lambda>c. c = 76 \<or> c = 108), Lit (ustr ''ine''), Plus py_isspace,
           Grp (Plus py_isdecimal), Star py_isspace,
           Cls (\<lambda>c. c = 58 \<or> c = 45 \<or> c = 0x2013), Star py_isspace,
           Grp (PlusLazy not_newline), Alt (Lit [10]) Eol]"

definition code_pattern :: rx where
  "code_pattern =
     seqs [LitI (ustr ''corrected code''), Opt (Lit (ustr '':'')), Star py_isspace,
           Lit (ustr ''```''), Opt (Alt (LitI (ustr ''cpp'')) (LitI (ustr ''c''))),
           Opt (Lit [10]), Grp (StarLazy any_char), Lit (ustr ''```'')]"

text \<open>
  \<open>_fallback_parse(response)\<close>. The loop over the matches appends to both lists in each
  round.
\<close>

fun collect_lines :: "pystr list list \<Rightarrow> pystr list \<times> pystr list \<Rightarrow> pystr list \<times> pystr list" where
  "collect_lines [] acc = acc"
| "collect_lines (g # gs) (bl, ex) = collect_lines gs (bl @ [group g 1], ex @ [py_strip (group g 2)])"

definition fallback_parse :: "pystr \<Rightarrow> parsed" where
  "fallback_parse response =
     (case collect_lines (finditer line_pattern response) ([], []) of
        (bl, ex) \<Rightarrow>
          \<lparr>bug_lines = bl, explanations = ex,
           corrected_code =
             (case re_search code_pattern response of
                None \<Rightarrow> PStr []
              | Some (m, g) \<Rightarrow> PStr (py_strip (group g 1)))\<rparr>)"

text \<open>
  The patterns of \<open>parse_llm_response\<close>: a fenced block,
  \<open>```(?:json)?\s*\n?(.*?)\n?```\<close>, and a JSON object, \<open>\{.*\}\<close>, both under \<open>re.DOTALL\<close>.
\<close>

definition fence_pattern :: rx where
  "fence_pattern =
     seqs [Lit (ustr ''```''), Opt (Lit (ustr ''json'')), Star py_isspace, Opt (Lit [10]),
           Grp (StarLazy any_char), Opt (Lit [10]), Lit (ustr ''```'')]"

definition object_pattern :: rx where
  "object_pattern = seqs [Lit (ustr ''{''), Star any_char, Lit (ustr ''}'')]"

text \<open>
  The text \<open>json.loads\<close> is given: the stripped reply, replaced by the inside of its
  first fenced block if it has one, replaced by its first span from \<open>{\<close> to the last \<open>}\<close>
  if it has one.
\<close>

definition unfence :: "pystr \<Rightarrow> pystr" where
  "unfence txt =
     (case re_search fence_pattern txt of None \<Rightarrow> txt | Some (m, g) \<Rightarrow> py_strip (group g 1))"

definition object_span :: "pystr \<Rightarrow> pystr" where
  "object_span txt = (case re_search object_pattern txt of None \<Rightarrow> txt | Some (m, g) \<Rightarrow> m)"

definition candidate :: "pystr \<Rightarrow> pystr" where
  "candidate response = object_span (unfence (py_strip response))"

text \<open>
  What Python does with a value where the source expects a dict, an iterable or a \<open>str\<close>:
  \<open>data.get(key, default)\<close>, iteration in a comprehension, \<open>e.split()\<close>.
\<close>

definition quoted :: "pystr \<Rightarrow> pystr" where
  "quoted s = [39] @ s @ [39]"

definition no_attribute :: "pyval \<Rightarrow> pystr \<Rightarrow> exn" where
  "no_attribute v name =
     AttributeError (quoted (type_name v) @ ustr '' object has no attribute '' @ quoted name)"

definition py_get :: "pyval \<Rightarrow> pystr \<Rightarrow> pyval \<Rightarrow> exn + pyval" where
  "py_get d k dflt =
     (case d of
        PDict kvs \<Rightarrow> Inr (dict_get kvs k dflt)
      | _ \<Rightarrow> Inl (no_attribute d (ustr ''get'')))"

definition py_iter :: "pyval \<Rightarrow> exn + pyval list" where
  "py_iter v =
     (case v of
        PList xs \<Rightarrow> Inr xs
      | PStr s \<Rightarrow> Inr (map (\<lambda>c. PStr [c]) s)
      | PDict kvs \<Rightarrow> Inr (map (\<lambda>kv. PStr (fst kv)) kvs)
      | _ \<Rightarrow> Inl (TypeError (quoted (type_name v) @ ustr '' object is not iterable'')))"

definition truncate_val :: "pyval \<Rightarrow> nat \<Rightarrow> exn + pystr" where
  "truncate_val e max_words =
     (case e of
        PStr s \<Rightarrow> Inr (truncate_words s max_words)
      | _ \<Rightarrow> Inl (no_attribute e (ustr ''split'')))"

text \<open>The two loops that make the lists the same length.\<close>

function pad_explanations :: "pystr list \<Rightarrow> pystr list \<Rightarrow> pystr list" where
  "pad_explanations bl ex =
     (if length ex < length bl then pad_explanations bl (ex @ [ustr ''Bug detected'']) else ex)"
  by pat_completeness auto
termination
  by (relation "measure (\<lambda>(bl, ex). length bl - length ex)") auto

function pad_bug_lines :: "pystr list \<Rightarrow> pystr list \<Rightarrow> pystr list" where
  "pad_bug_lines bl ex =
     (if length bl < length ex then pad_bug_lines (bl @ [[]]) ex else bl)"
  by pat_completeness auto
termination
  by (relation "measure (\<lambda>(bl, ex). length ex - length bl)") auto

declare pad_explanations.simps [simp del] pad_bug_lines.simps [simp del]

text \<open>
  \<open>parse_llm_response\<close> from the point where \<open>json.loads\<close> has returned \<open>data\<close>: the three
  lookups, the two comprehensions, the two loops.
\<close>

definition reconcile :: "pystr list \<Rightarrow> pystr list \<Rightarrow> pyval \<Rightarrow> parsed" where
  "reconcile bl ex cc =
     \<lparr>bug_lines = pad_bug_lines bl (pad_explanations bl ex),
      explanations = pad_explanations bl ex,
      corrected_code = cc\<rparr>"

definition parse_data :: "pylib \<Rightarrow> pyval \<Rightarrow> exn + parsed" where
  "parse_data L data =
     bind (py_get data (ustr ''bug_lines'') (PList [])) (\<lambda>bug_lines0.
     bind (py_get data (ustr ''explanations'') (PList [])) (\<lambda>explanations0.
     bind (py_get data (ustr ''corrected_code'') (PStr [])) (\<lambda>cc.
     bind (py_iter bug_lines0) (\<lambda>lines.
     bind (py_iter explanations0) (\<lambda>es.
     bind (map_raise (\<lambda>e. truncate_val e 15) es) (\<lambda>ex.
     Inr (reconcile (map (py_str L) lines) ex cc)))))))"

definition default_result :: parsed where
  "default_result = \<lparr>bug_lines = [], explanations = [], corrected_code = PStr []\<rparr>"

definition parse_llm_response :: "pylib \<Rightarrow> pystr \<Rightarrow> exn + parsed" where
  "parse_llm_response L response =
     (if response = [] \<or> py_strip response = [] then Inr default_result
      else case json_loads (candidate response) of
             None \<Rightarrow> Inr (fallback_parse response)
           | Some data \<Rightarrow> parse_data L data)"

section \<open>Comparison, sorting and formatting of values\<close>

text \<open>
  The number a \<open>bool\<close>, an \<open>int\<close> or a \<open>float\<close> denotes. Python compares numbers of
  different types by their exact values; NaN is neither less than nor equal to anything.
\<close>

datatype numv = NNaN | NNegInf | NFin rat | NPosInf

fun num_of :: "pyval \<Rightarrow> numv option" where
  "num_of (PBool b) = Some (NFin (if b then 1 else 0))"
| "num_of (PInt i) = Some (NFin (of_int i))"
| "num_of (PFloat (Fin s m e)) = Some (NFin (fin_val s m e))"
| "num_of (PFloat (Inf s)) = Some (if s then NNegInf else NPosInf)"
| "num_of (PFloat NaN) = Some NNaN"
| "num_of _ = None"

fun numv_lt :: "numv \<Rightarrow> numv \<Rightarrow> bool" where
  "numv_lt NNaN y = False"
| "numv_lt x NNaN = False"
| "numv_lt NNegInf y = (y \<noteq> NNegInf)"
| "numv_lt x NNegInf = False"
| "numv_lt (NFin p) (NFin q) = (p < q)"
| "numv_lt (NFin p) NPosInf = True"
| "numv_lt NPosInf y = False"

fun numv_eq :: "numv \<Rightarrow> numv \<Rightarrow> bool" where
  "numv_eq NNaN y = False"
| "numv_eq x NNaN = False"
| "numv_eq x y = (x = y)"

text \<open>\<open>x == y\<close> (without the shortcut Python takes for one and the same object).\<close>

fun py_eq :: "pyval \<Rightarrow> pyval \<Rightarrow> bool" where
  "py_eq (PList xs) (PList ys) = list_all2 py_eq xs ys"
| "py_eq (PDict kvs) (PDict kvs') =
     (length kvs = length kvs' \<and>
      list_all (\<lambda>kv. case map_of kvs' (fst kv) of None \<Rightarrow> False | Some v' \<Rightarrow> py_eq (snd kv) v') kvs)"
| "py_eq (PStr s) (PStr t) = (s = t)"
| "py_eq PNone PNone = True"
| "py_eq x y = (case (num_of x, num_of y) of (Some a, Some b) \<Rightarrow> numv_eq a b | _ \<Rightarrow> False)"

fun str_lt :: "pystr \<Rightarrow> pystr \<Rightarrow> bool" where
  "str_lt [] [] = False"
| "str_lt [] (d # t) = True"
| "str_lt (c # s) [] = False"
| "str_lt (c # s) (d # t) = (c < d \<or> (c = d \<and> str_lt s t))"

definition not_supported :: "pyval \<Rightarrow> pyval \<Rightarrow> exn" where
  "not_supported x y =
     TypeError (quoted (ustr ''<'') @ ustr '' not supported between instances of '' @
                quoted (type_name x) @ ustr '' and '' @ quoted (type_name y))"

text \<open>
  \<open>x < y\<close>: numbers by value, strings and lists lexicographically (a list by the first
  position where the two differ); TypeError for every other pair of types.
\<close>

fun py_lt :: "pyval \<Rightarrow> pyval \<Rightarrow> exn + bool"
  and py_lt_list :: "pyval list \<Rightarrow> pyval list \<Rightarrow> exn + bool" where
  "py_lt (PList xs) (PList ys) = py_lt_list xs ys"
| "py_lt (PStr s) (PStr t) = Inr (str_lt s t)"
| "py_lt x y =
     (case (num_of x, num_of y) of
        (Some a, Some b) \<Rightarrow> Inr (numv_lt a b)
      | _ \<Rightarrow> Inl (not_supported x y))"
| "py_lt_list [] [] = Inr False"
| "py_lt_list [] (y # ys) = Inr True"
| "py_lt_list (x # xs) [] = Inr False"
| "py_lt_list (x # xs) (y # ys) = (if py_eq x y then py_lt_list xs ys else py_lt x y)"

text \<open>
  \<open>sorted(xs, key=..., reverse=True)\<close> on the pairs of a key and its element: the list is
  reversed, sorted in ascending order of the keys and reversed again. The ascending sort
  is stable and compares with \<open><\<close> alone: each element is inserted, from the left, behind
  the elements that are not greater (the binary insertion sort of \<open>list.sort\<close> on short
  lists does these insertions). An exception of a comparison ends the sort.

  This is the result of \<open>list.sort\<close> for keys that \<open><\<close> orders, as the scores of well-formed
  hits are: a stable ascending sort has one result. It is not a model of the comparisons
  \<open>list.sort\<close> makes: for keys that \<open><\<close> does not order (a NaN among them) the order may
  differ, and for more than two keys of mixed types the pair of keys compared first, and
  with it the two type names in the text of the \<open>TypeError\<close>, may differ. For two keys
  \<open>list.sort\<close> makes the one comparison made here, of the second key of the reversed list
  with the first.
\<close>

fun py_insort :: "pyval \<times> 'a \<Rightarrow> (pyval \<times> 'a) list \<Rightarrow> exn + (pyval \<times> 'a) list" where
  "py_insort x [] = Inr [x]"
| "py_insort x (y # ys) =
     (case py_lt (fst x) (fst y) of
        Inl e \<Rightarrow> Inl e
      | Inr b \<Rightarrow>
          if b then Inr (x # y # ys)
          else (case py_insort x ys of Inl e \<Rightarrow> Inl e | Inr zs \<Rightarrow> Inr (y # zs)))"

fun py_sort_from :: "(pyval \<times> 'a) list \<Rightarrow> (pyval \<times> 'a) list \<Rightarrow> exn + (pyval \<times> 'a) list" where
  "py_sort_from acc [] = Inr acc"
| "py_sort_from acc (x # xs) =
     (case py_insort x acc of Inl e \<Rightarrow> Inl e | Inr acc' \<Rightarrow> py_sort_from acc' xs)"

definition py_sorted_reverse :: "(pyval \<times> 'a) list \<Rightarrow> exn + 'a list" where
  "py_sorted_reverse kxs =
     (case py_sort_from [] (rev kxs) of Inl e \<Rightarrow> Inl e | Inr ys \<Rightarrow> Inr (rev (map snd ys)))"

text \<open>\<open>xs[:k]\<close>: a negative \<open>k\<close> counts from the end.\<close>

definition slice_to :: "'a list \<Rightarrow> int \<Rightarrow> 'a list" where
  "slice_to xs k = (if 0 \<le> k then take (nat k) xs else take (length xs - nat (- k)) xs)"

text \<open>
  \<open>format(v, ".3f")\<close>: an \<open>int\<close> (and a \<open>bool\<close>) is converted to a float first; a \<open>str\<close>
  has no format code \<open>f\<close>; the other types take no format string.
\<close>

definition py_format_3f :: "pyval \<Rightarrow> exn + pystr" where
  "py_format_3f v =
     (case v of
        PFloat x \<Rightarrow> Inr (format_3f x)
      | PInt i \<Rightarrow> (case float_of_int i of Inl e \<Rightarrow> Inl e | Inr x \<Rightarrow> Inr (format_3f x))
      | PBool b \<Rightarrow> Inr (format_3f (Fin False (if b then 1 else 0) 0))
      | PStr s \<Rightarrow> Inl (ValueError (ustr ''Unknown format code '' @ quoted (ustr ''f'') @
                              ustr '' for object of type '' @ quoted (ustr ''str'')))
      | _ \<Rightarrow> Inl (TypeError (ustr ''unsupported format string passed to '' @ type_name v @ ustr ''.__format__'')))"

definition py_strip_val :: "pyval \<Rightarrow> exn + pystr" where
  "py_strip_val v = (case v of PStr s \<Rightarrow> Inr (py_strip s) | _ \<Rightarrow> Inl (no_attribute v (ustr ''strip'')))"

section \<open>utils/code\_analyzer.py: the evidence formatter\<close>

text \<open>
  One round of the loop of \<open>format_rag_docs\<close>: the block of the document at rank \<open>i\<close>, or
  nothing when its stripped text is empty.
\<close>

definition doc_block :: "nat \<Rightarrow> pystr \<Rightarrow> pystr \<Rightarrow> pystr" where
  "doc_block i score txt =
     ustr ''[Doc '' @ dec_nat i @ ustr '' (relevance: '' @ score @ ustr '')]:'' @ [10] @ txt"

definition render_doc :: "nat \<Rightarrow> pyval \<Rightarrow> exn + pystr list" where
  "render_doc i doc =
     bind (py_get doc (ustr ''text'') (PStr [])) (\<lambda>t.
     bind (py_strip_val t) (\<lambda>txt.
     bind (py_get doc (ustr ''score'') (PInt 0)) (\<lambda>score.
     if txt = [] then Inr []
     else bind (py_format_3f score) (\<lambda>sc. Inr [doc_block i sc txt]))))"

fun render_docs :: "nat \<Rightarrow> pyval list \<Rightarrow> exn + pystr list" where
  "render_docs i [] = Inr []"
| "render_docs i (doc # docs) =
     bind (render_doc i doc) (\<lambda>p. bind (render_docs (Suc i) docs) (\<lambda>ps. Inr (p @ ps)))"

definition format_rag_docs :: "pyval list \<Rightarrow> int \<Rightarrow> exn + pystr" where
  "format_rag_docs rag_results max_docs =
     (if rag_results = [] then Inr []
      else
        bind (map_raise (\<lambda>x. py_get x (ustr ''score'') (PInt 0)) rag_results) (\<lambda>keys.
        bind (py_sorted_reverse (zip keys rag_results)) (\<lambda>sorted_docs.
        bind (render_docs 1 (slice_to sorted_docs max_docs)) (\<lambda>parts.
        Inr (join ([10, 10]) parts)))))"

section \<open>utils/code\_analyzer.py: the prompt builder\<close>

text \<open>\<open>add_line_numbers(code)\<close>.\<close>

fun number_lines :: "nat \<Rightarrow> pystr list \<Rightarrow> pystr list" where
  "number_lines i [] = []"
| "number_lines i (line # lines) = (dec_nat (i + 1) @ ustr '': '' @ line) # number_lines (Suc i) lines"

definition add_line_numbers :: "pystr \<Rightarrow> pystr" where
  "add_line_numbers code = join [10] (number_lines 0 (split_on 10 code))"

text \<open>\<open>build_analysis_prompt(numbered_code, context, rag_docs, static_errors)\<close>.\<close>

definition rag_section :: "pystr \<Rightarrow> pystr" where
  "rag_section rag_docs =
     (if rag_docs \<noteq> [] \<and> py_strip rag_docs \<noteq> []
      then [10] @ ustr ''**Relevant API Documentation (from knowledge base):**'' @ [10] @ rag_docs @ [10]
      else [])"

definition static_section :: "pystr \<Rightarrow> pystr" where
  "static_section static_errors =
     (if static_errors \<noteq> [] \<and> py_strip static_errors \<noteq> []
      then [10] @ ustr ''**Static Analysis Findings (CppCheck):**'' @ [10] @ static_errors @ [10] @
           ustr ''(Note: Use these findings as strong evidence, but verify them against the context.)'' @ [10]
      else [])"

definition prompt_rules :: "pystr list" where
  "prompt_rules =
     [[],
      ustr ''**Bug categories to check:**'',
      ustr ''- Wrong/misspelled function names (e.g., readHumanSeniority vs readHumSensor, iMeans vs iMeas)'',
      ustr ''- Wrong argument order (e.g., iClamp(high, low) should be iClamp(low, high))'',
      ustr ''- Values exceeding documented ranges.'',
      ustr ''- Wrong API calls (e.g., use execute() instead of burst()).'',
      ustr ''- Variable mismatches.'',
      ustr ''- Lifecycle errors (e.g., RDI_END before RDI_BEGIN).'',
      ustr ''- Pin name typos (e.g., \"D0\" vs \"DO\").'',
      [],
      ustr ''**FEW-SHOT EXAMPLES:**'',
      [],
      ustr ''Example 1:'',
      ustr ''Code: `2: rdi.pmux(4).module(\"02\").readHumanSeniority().execute();`'',
      ustr ''Output: {\"bug_lines\": [2], \"explanations\": [\"readHumanSeniority -> readHumSensor\"], \"corrected_code\": \"rdi.pmux(4).module('' @
        [92, 34] @ ustr ''02'' @ [92, 34] @ ustr '').readHumSensor().execute();\"}'',
      [],
      ustr ''Example 2:'',
      ustr ''Code: `3: iClamp(50 mA, -50 mA);`'',
      ustr ''Output: {\"bug_lines\": [3], \"explanations\": [\"iClamp args swapped\"], \"corrected_code\": \"iClamp(-50 mA, 50 mA);\"}'',
      [],
      ustr ''**RULES:**'',
      ustr ''1. Explanations MUST be under 10 words.'',
      ustr ''2. Report the exact line number.'',
      ustr ''3. Provide the COMPLETE corrected line(s) of code in `corrected_code`. If multiple lines are wrong, fix all of them.'',
      ustr ''4. Respond with ONLY the JSON object.'',
      [],
      ustr ''{\"bug_lines\": [line_numbers], \"explanations\": [\"short explanation\"], \"corrected_code\": \"full corrected code snippet\"}'']"

definition build_analysis_prompt :: "pystr \<Rightarrow> pystr \<Rightarrow> pystr \<Rightarrow> pystr \<Rightarrow> pystr" where
  "build_analysis_prompt numbered_code context rag_docs static_errors =
     join [10]
       ([ustr ''You are an expert bug detector for RDI/SmartRDI embedded test code. Find ALL bugs and provide the CORRECTED code.'',
         [],
         ustr ''**Context:** '' @ context,
         rag_section rag_docs,
         static_section static_errors,
         ustr ''**Code:**'',
         ustr ''```'',
         numbered_code,
         ustr ''```''] @ prompt_rules)"

section \<open>The collaborators\<close>

text \<open>
  What the program reaches outside itself for, as functions of the world it runs in:
  the documentation search tool (the text of the first content item of its result, if
  any), \<open>ast.literal_eval\<close>, the temporary file (\<open>NamedTemporaryFile\<close> and \<open>write\<close> give the
  path), the run of cppcheck (its standard error), the removal of the temporary file
  (the exception it raises, if any) and the HTTP request. Exceptions are of class
  \<open>Exception\<close>; interrupts and cancellation are outside the model, and \<open>print\<close> has no
  effect in it.

  Of a response the program uses the status code, what \<open>raise_for_status\<close> raises on a
  status outside 200..299 (an \<open>HTTPStatusError\<close> with the text \<open>status_error\<close>, holding the
  response and so its body) and what \<open>resp.json()\<close> gives for the body (\<open>json_body\<close>: the
  decoded payload, or the exception of the decoder). The program itself never reads
  \<open>body\<close>.
\<close>

record http_response =
  status_code :: nat
  status_error :: pystr
  body :: pystr
  json_body :: "exn + pyval"

record world =
  call_tool :: "pystr \<Rightarrow> exn + pystr option"
  literal_eval :: "pystr \<Rightarrow> pyval option"
  make_temp :: "pystr \<Rightarrow> exn + pystr"
  run_cppcheck :: "pystr \<Rightarrow> exn + pystr"
  remove_temp :: "pystr \<Rightarrow> exn option"
  http_post :: "pystr \<Rightarrow> exn + http_response"

section \<open>utils/cpp\_checker.py\<close>

text \<open>The findings in the standard error of cppcheck.\<close>

definition findings_of :: "pystr \<Rightarrow> pystr \<Rightarrow> pystr list" where
  "findings_of temp_path output =
     map (\<lambda>line. py_strip (py_replace temp_path [] line))
       (filter (\<lambda>line. py_strip line \<noteq> [] \<and> \<not> prefix (ustr ''Checking'') line)
          (split_on 10 output))"

text \<open>
  \<open>check_code_snippet(code)\<close>: the temporary file is written before the \<open>try\<close>; an
  exception of the run is caught and returned as text; the \<open>finally\<close> block removes the
  file, and an exception it raises replaces the result.
\<close>

definition try_cppcheck :: "world \<Rightarrow> pystr \<Rightarrow> pystr" where
  "try_cppcheck W temp_path =
     (case run_cppcheck W temp_path of
        Inl e \<Rightarrow> ustr ''Error running cppcheck: '' @ exn_str e
      | Inr err \<Rightarrow>
          if findings_of temp_path (py_strip err) \<noteq> []
          then join [10] (findings_of temp_path (py_strip err)) else [])"

definition check_code_snippet :: "world \<Rightarrow> pystr \<Rightarrow> exn + pystr" where
  "check_code_snippet W code =
     bind (make_temp W code) (\<lambda>temp_path.
       case remove_temp W temp_path of
         Some e \<Rightarrow> Inl e
       | None \<Rightarrow> Inr (try_cppcheck W temp_path))"

section \<open>bug\_agent.py\<close>

text \<open>
  \<open>search_docs(mcp_client, query)\<close>: the documents the tool returned as a JSON list, or as
  a Python literal when the text is not JSON; the empty list in every other case, an
  exception of the tool included.
\<close>

definition search_docs :: "world \<Rightarrow> pystr \<Rightarrow> pyval list" where
  "search_docs W query =
     (case call_tool W query of
        Inl e \<Rightarrow> []
      | Inr None \<Rightarrow> []
      | Inr (Some raw_text) \<Rightarrow>
          (case json_loads raw_text of
             Some docs \<Rightarrow> (case docs of PList ds \<Rightarrow> ds | _ \<Rightarrow> [])
           | None \<Rightarrow> (case literal_eval W raw_text of Some (PList ds) \<Rightarrow> ds | _ \<Rightarrow> [])))"

text \<open>
  What Python does with the payload in \<open>call_llm\<close>: \<open>key in data\<close>, \<open>len(x)\<close>,
  \<open>x[key]\<close> for a string key and \<open>x[0]\<close>.
\<close>

definition py_contains :: "pystr \<Rightarrow> pyval \<Rightarrow> exn + bool" where
  "py_contains k data =
     (case data of
        PDict kvs \<Rightarrow> Inr (k \<in> set (map fst kvs))
      | PList xs \<Rightarrow> Inr (PStr k \<in> set xs)
      | PStr s \<Rightarrow> Inr (sublist k s)
      | _ \<Rightarrow> Inl (TypeError (ustr ''argument of type '' @ quoted (type_name data) @ ustr '' is not iterable'')))"

definition py_len :: "pyval \<Rightarrow> exn + nat" where
  "py_len v =
     (case v of
        PStr s \<Rightarrow> Inr (length s)
      | PList xs \<Rightarrow> Inr (length xs)
      | PDict kvs \<Rightarrow> Inr (length kvs)
      | _ \<Rightarrow> Inl (TypeError (ustr ''object of type '' @ quoted (type_name v) @ ustr '' has no len()'')))"

definition not_subscriptable :: "pyval \<Rightarrow> exn" where
  "not_subscriptable v = TypeError (quoted (type_name v) @ ustr '' object is not subscriptable'')"

definition py_item :: "pyval \<Rightarrow> pystr \<Rightarrow> exn + pyval" where
  "py_item v k =
     (case v of
        PDict kvs \<Rightarrow> (case map_of kvs k of None \<Rightarrow> Inl (KeyError (quoted k)) | Some x \<Rightarrow> Inr x)
      | PList xs \<Rightarrow> Inl (TypeError (ustr ''list indices must be integers or slices, not str''))
      | PStr s \<Rightarrow> Inl (TypeError (ustr ''string indices must be integers, not '' @ quoted (ustr ''str'')))
      | _ \<Rightarrow> Inl (not_subscriptable v))"

definition py_first :: "pyval \<Rightarrow> exn + pyval" where
  "py_first v =
     (case v of
        PList xs \<Rightarrow> (case xs of [] \<Rightarrow> Inl (IndexError (ustr ''list index out of range'')) | x # r \<Rightarrow> Inr x)
      | PStr s \<Rightarrow> (case s of [] \<Rightarrow> Inl (IndexError (ustr ''string index out of range'')) | c # r \<Rightarrow> Inr (PStr [c]))
      | PDict kvs \<Rightarrow> Inl (KeyError (ustr ''0''))
      | _ \<Rightarrow> Inl (not_subscriptable v))"

text \<open>
  \<open>call_llm(prompt)\<close> from the point where \<open>resp.json()\<close> has returned \<open>data\<close>: the chat
  format, the fallback for a list, the error.
\<close>

definition has_choices :: "pyval \<Rightarrow> exn + bool" where
  "has_choices data =
     bind (py_contains (ustr ''choices'') data) (\<lambda>present.
     if present
     then bind (py_item data (ustr ''choices'')) (\<lambda>choices. bind (py_len choices) (\<lambda>n. Inr (0 < n)))
     else Inr False)"

definition chat_content :: "pyval \<Rightarrow> exn + pyval" where
  "chat_content data =
     bind (py_item data (ustr ''choices'')) (\<lambda>choices.
     bind (py_first choices) (\<lambda>choice.
     bind (py_item choice (ustr ''message'')) (\<lambda>message.
     py_item message (ustr ''content''))))"

definition read_reply :: "pylib \<Rightarrow> pyval \<Rightarrow> exn + pyval" where
  "read_reply L data =
     bind (has_choices data) (\<lambda>chat.
     if chat then chat_content data
     else case data of
            PList (x # xs) \<Rightarrow> py_get x (ustr ''generated_text'') (PStr (py_str L x))
          | _ \<Rightarrow> Inl (RuntimeError (ustr ''Unexpected HF API response format: '' @ take 200 (dumps_text L data))))"

text \<open>
  \<open>call_llm(prompt)\<close>: \<open>raise_for_status\<close> raises for every status outside 200 to 299.
\<close>

definition call_llm :: "pylib \<Rightarrow> world \<Rightarrow> pystr \<Rightarrow> exn + pyval" where
  "call_llm L W prompt =
     bind (http_post W prompt) (\<lambda>resp.
     if \<not> (200 \<le> status_code resp \<and> status_code resp \<le> 299)
     then Inl (HTTPStatusError (status_code resp) (status_error resp) (body resp))
     else bind (json_body resp) (\<lambda>data. read_reply L data))"

text \<open>
  \<open>parse_llm_response\<close> as \<open>analyze_entry\<close> calls it, on whatever \<open>call_llm\<close> returned: a
  value that is not a \<open>str\<close> passes the test \<open>not response\<close> when it is false, and has
  no \<open>strip\<close> otherwise.
\<close>

definition parse_reply :: "pylib \<Rightarrow> pyval \<Rightarrow> exn + parsed" where
  "parse_reply L response =
     (case response of
        PStr s \<Rightarrow> parse_llm_response L s
      | _ \<Rightarrow> if truthy response then Inl (no_attribute response (ustr ''strip'')) else Inr default_result)"

text \<open>\<open>analyze_entry\<close>: the body of the \<open>try\<close>, and the whole with its \<open>except\<close>.\<close>

definition result_dict :: "pystr \<Rightarrow> parsed \<Rightarrow> pyval list \<Rightarrow> (pystr \<times> pyval) list" where
  "result_dict entry_id result rag_results =
     [(ustr ''ID'', PStr entry_id),
      (ustr ''Bug Line'', PStr (if bug_lines result \<noteq> [] then join (ustr '','') (bug_lines result) else [])),
      (ustr ''Explanation'',
         PStr (if explanations result \<noteq> [] then join (ustr ''; '') (explanations result)
               else ustr ''No bugs detected'')),
      (ustr ''Corrected Code'', corrected_code result),
      (ustr ''RAG Docs'', PList rag_results)]"

definition error_dict :: "pystr \<Rightarrow> exn \<Rightarrow> (pystr \<times> pyval) list" where
  "error_dict entry_id e =
     [(ustr ''ID'', PStr entry_id),
      (ustr ''Bug Line'', PStr []),
      (ustr ''Explanation'', PStr (ustr ''Error: '' @ exn_str e)),
      (ustr ''Corrected Code'', PStr []),
      (ustr ''RAG Docs'', PList [])]"

definition analyze_steps :: "pylib \<Rightarrow> world \<Rightarrow> pystr \<Rightarrow> pystr \<Rightarrow> pystr \<Rightarrow> exn + (pystr \<times> pyval) list" where
  "analyze_steps L W entry_id code context =
     bind (format_rag_docs (search_docs W context) 5) (\<lambda>rag_text.
     bind (check_code_snippet W code) (\<lambda>static_errors.
     bind (call_llm L W (build_analysis_prompt (add_line_numbers code) context rag_text static_errors)) (\<lambda>response_text.
     bind (parse_reply L response_text) (\<lambda>result.
     Inr (result_dict entry_id result (search_docs W context))))))"

definition analyze_entry :: "pylib \<Rightarrow> world \<Rightarrow> pystr \<Rightarrow> pystr \<Rightarrow> pystr \<Rightarrow> (pystr \<times> pyval) list" where
  "analyze_entry L W entry_id code context =
     (case analyze_steps L W entry_id code context of
        Inr d \<Rightarrow> d
      | Inl e \<Rightarrow> error_dict entry_id e)"

section \<open>The evidence formatter, as the specification states it\<close>

text \<open>
  A retrieval hit is well formed when it is an object whose text, if it has one, is a
  string and whose score, if it has one, is a finite float, or an int that \<open>float\<close>
  converts (\<open>float\<close> raises \<open>OverflowError\<close> for an int that rounds to 2 to the power 1024
  or beyond, and the format \<open>.3f\<close> converts an int with \<open>float\<close>). Its text is the
  stripped text (empty when absent), its score the number (0 when absent).
\<close>

definition doc_text :: "pyval \<Rightarrow> pystr" where
  "doc_text d =
     (case d of
        PDict kvs \<Rightarrow> (case dict_get kvs (ustr ''text'') (PStr []) of PStr s \<Rightarrow> py_strip s | _ \<Rightarrow> [])
      | _ \<Rightarrow> [])"

definition doc_score :: "pyval \<Rightarrow> pyval" where
  "doc_score d = (case d of PDict kvs \<Rightarrow> dict_get kvs (ustr ''score'') (PInt 0) | _ \<Rightarrow> PInt 0)"

definition num_val :: "pyval \<Rightarrow> rat" where
  "num_val v = (case num_of v of Some (NFin q) \<Rightarrow> q | _ \<Rightarrow> 0)"

definition score_val :: "pyval \<Rightarrow> rat" where
  "score_val d = num_val (doc_score d)"

definition score_text :: "pyval \<Rightarrow> pystr" where
  "score_text d = (case py_format_3f (doc_score d) of Inr s \<Rightarrow> s | Inl e \<Rightarrow> [])"

definition is_score :: "pyval \<Rightarrow> bool" where
  "is_score v =
     (case v of
        PFloat x \<Rightarrow> (case x of Fin s m e \<Rightarrow> True | _ \<Rightarrow> False)
      | PInt i \<Rightarrow> (case float_of_int i of Inr x \<Rightarrow> True | Inl e \<Rightarrow> False)
      | _ \<Rightarrow> False)"

definition well_formed_hit :: "pyval \<Rightarrow> bool" where
  "well_formed_hit d =
     (case d of
        PDict kvs \<Rightarrow>
          (case dict_get kvs (ustr ''text'') (PStr []) of PStr s \<Rightarrow> True | _ \<Rightarrow> False) \<and>
          is_score (dict_get kvs (ustr ''score'') (PInt 0))
      | _ \<Rightarrow> False)"

text \<open>
  The same object with the score 0, when it has no score; every other value is left as
  it is.
\<close>

definition with_default_score :: "pyval \<Rightarrow> pyval" where
  "with_default_score d =
     (case d of
        PDict kvs \<Rightarrow>
          (case map_of kvs (ustr ''score'') of
             None \<Rightarrow> PDict (kvs @ [(ustr ''score'', PInt 0)])
           | Some v \<Rightarrow> d)
      | _ \<Rightarrow> d)"

text \<open>
  The specification's contract, in its words: sort descending by score, ties keeping the
  source order (\<open>sort_key\<close> is the stable sort of the library); take the first \<open>k\<close>; drop
  the entries with empty text; render each surviving entry with its rank from 1 and
  its score to three decimals; separate the blocks by blank lines.
\<close>

definition evidence_spec :: "pyval list \<Rightarrow> nat \<Rightarrow> pystr" where
  "evidence_spec docs k =
     join [10, 10]
       (map (\<lambda>(i, d). doc_block i (score_text d) (doc_text d))
          (filter (\<lambda>(i, d). doc_text d \<noteq> [])
             (enumerate 1 (take k (sort_key (\<lambda>d. - score_val d) docs)))))"

text \<open>
  The insertion \<open>py_insort\<close> does when no comparison raises, for keys that are numbers.
\<close>

fun ins_after :: "('a \<Rightarrow> rat) \<Rightarrow> 'a \<Rightarrow> 'a list \<Rightarrow> 'a list" where
  "ins_after f x [] = [x]"
| "ins_after f x (y # ys) = (if f x < f y then x # y # ys else y # ins_after f x ys)"

section \<open>Worlds and a library for the closed examples\<close>

text \<open>
  The library of the examples below. Its two texts are placeholders: the examples are
  inputs on which neither \<open>repr\<close> nor \<open>json.dumps\<close> decides the result, and where a result
  holds a text of the library, it is stated with \<open>dumps_text\<close> applied to the value.
\<close>

definition example_lib :: pylib where
  "example_lib = \<lparr>repr_text = (\<lambda>v. ustr ''...''), dumps_text = (\<lambda>v. ustr ''...'')\<rparr>"

text \<open>
  Worlds for the examples: the search tool returns no content, cppcheck reports nothing
  (or, in the second world, cannot be started), and the HTTP request gets the answer
  given. \<open>chat_payload\<close> is a chat completion with one choice.
\<close>

definition chat_payload :: "pystr \<Rightarrow> pyval" where
  "chat_payload reply =
     PDict [(ustr ''choices'',
             PList [PDict [(ustr ''message'', PDict [(ustr ''role'', PStr (ustr ''assistant'')),
                                                      (ustr ''content'', PStr reply)])]])]"

definition quiet_world :: "exn + http_response \<Rightarrow> world" where
  "quiet_world answer =
     \<lparr>call_tool = (\<lambda>query. Inr None),
      literal_eval = (\<lambda>t. None),
      make_temp = (\<lambda>code. Inr (ustr ''/tmp/tmpk3v9.cpp'')),
      run_cppcheck = (\<lambda>path. Inr []),
      remove_temp = (\<lambda>path. None),
      http_post = (\<lambda>prompt. answer)\<rparr>"

definition ok_response :: "pyval \<Rightarrow> exn + http_response" where
  "ok_response payload =
     Inr \<lparr>status_code = 200, status_error = [], body = [], json_body = Inr payload\<rparr>"

definition no_cppcheck_world :: "exn + http_response \<Rightarrow> world" where
  "no_cppcheck_world answer =
     (quiet_world answer)
       \<lparr>run_cppcheck := (\<lambda>path. Inl (External (ustr ''FileNotFoundError'')
                                      (ustr ''[Errno 2] No such file or directory: cppcheck'')))\<rparr>"

text \<open>The two hits of the specification's example: texts A and B, scores 0.2 and 0.9.\<close>

definition example_hits :: "pyval list" where
  "example_hits =
     [PDict [(ustr ''text'', PStr (ustr ''A'')), (ustr ''score'', PFloat (float_of_decimal False 2 (- 1)))],
      PDict [(ustr ''text'', PStr (ustr ''B'')), (ustr ''score'', PFloat (float_of_decimal False 9 (- 1)))]]"

section \<open>Evaluation\<close>

text \<open>The equations that evaluate the functions above on a given text.\<close>

lemmas json_eval = json_loads_def scan_number_def scan_unsigned_def number_value_def scan_exp_def
  exp_digits_def scan_frac_def scan_int_part_def scan_scalar_def unicode_escape_def hex_val_def
  simple_escape_def jstep_def start_value_def close_top_def read_key_def nat_of_digits_def
  digit_val_def is_ascii_digit_def

lemmas re_eval = candidate_def unfence_def object_span_def fence_pattern_def object_pattern_def
  line_pattern_def code_pattern_def fallback_parse_def finditer_def group_def py_strip_def
  py_isspace_def py_isdecimal_def nd_blocks_def any_char_def not_newline_def ascii_lower_def

lemmas parse_eval = parse_llm_response_def parse_data_def bind_def py_get_def dict_get_def py_iter_def
  truncate_val_def truncate_words_def py_split_def reconcile_def pad_explanations.simps
  pad_bug_lines.simps dec_int_def dec_nat.simps default_result_def no_attribute_def quoted_def

lemmas fl_eval = float_of_decimal_def to_binary64_def round_at_def pack64_def ilog2_ratio_def
  ilog2_adjust_def round_ratio_def round_div_def round_qr_def bitlen.simps float_of_int_def
  fixed3_def pad3_def dec_nat.simps

lemmas docs_eval = format_rag_docs_def render_doc_def py_get_def dict_get_def py_strip_val_def
  py_strip_def py_isspace_def py_format_3f_def doc_block_def py_sorted_reverse_def bind_def
  slice_to_def quoted_def not_supported_def no_attribute_def

section \<open>The lexical pass always advances\<close>

text \<open>
  The tests on the length of the remaining text in \<open>scan_string\<close> and \<open>lex\<close>, which make
  their recursion terminate, always succeed: each scanner returns a text shorter than
  the one it was given.
\<close>

lemma hex4_length: "hex4 s = Some (v, r) \<Longrightarrow> length s = length r + 4"
  by (cases s rule: hex4.cases) (auto split: option.splits)

lemma unicode_escape_shorter: "unicode_escape s = Some (u, r) \<Longrightarrow> length r < length s"
  by (auto simp: unicode_escape_def split: option.splits if_splits dest!: hex4_length)

lemma scan_string_shorter: "scan_string acc s = Some (v, r) \<Longrightarrow> length r < length s"
proof (induction acc s rule: scan_string.induct)
  case (1 acc)
  then show ?case by simp
next
  case (2 acc c cs)
  show ?case
  proof (cases "c = 34 \<or> (c \<noteq> 92 \<and> c < 32)")
    case True
    with 2(4) show ?thesis by (auto split: if_splits)
  next
    case False
    note plain = False
    show ?thesis
    proof (cases "c = 92")
      case False
      with plain 2(4) have "scan_string (acc @ [c]) cs = Some (v, r)" by (simp split: if_splits)
      with 2(3) [of ] plain False have "length r < length cs" by simp
      then show ?thesis by simp
    next
      case True
      show ?thesis
      proof (cases cs)
        case Nil
        with True 2(4) show ?thesis by simp
      next
        case (Cons e es)
        show ?thesis
        proof (cases "e = 117")
          case True
          with \<open>c = 92\<close> Cons 2(4) obtain u rest where
            u: "unicode_escape es = Some (u, rest)" "length rest < length es"
               "scan_string (acc @ [u]) rest = Some (v, r)"
            by (auto split: option.splits if_splits)
          with 2(1) [of e es "(u, rest)" u rest] \<open>c = 92\<close> Cons True
          have "length r < length rest" by simp
          with u(2) Cons show ?thesis by simp
        next
          case False
          with \<open>c = 92\<close> Cons 2(4) obtain x where
            x: "simple_escape e = Some x" "scan_string (acc @ [x]) es = Some (v, r)"
            by (auto split: option.splits)
          with 2(2) [of e es x] \<open>c = 92\<close> Cons False have "length r < length es" by simp
          with Cons show ?thesis by simp
        qed
      qed
    qed
  qed
qed

lemma length_dropWhile_le': "length (dropWhile P xs) \<le> length xs"
  by (induction xs) auto

lemma scan_int_part_shorter: "scan_int_part s = Some (ip, r) \<Longrightarrow> length r < length s"
  using length_dropWhile_le' [of is_ascii_digit "tl s"]
  by (auto simp: scan_int_part_def split: list.splits if_splits)

lemma scan_frac_le: "scan_frac s = (fp, r) \<Longrightarrow> length r \<le> length s"
  by (auto simp: scan_frac_def split: list.splits if_splits
      intro: le_trans [OF length_dropWhile_le'])

lemma exp_digits_le: "length ds \<le> length s \<Longrightarrow> exp_digits neg ds s = (ex, r) \<Longrightarrow> length r \<le> length s"
  using length_dropWhile_le' [of is_ascii_digit ds]
  by (auto simp: exp_digits_def split: if_splits)

lemma scan_exp_le: "scan_exp s = (ex, r) \<Longrightarrow> length r \<le> length s"
  by (auto simp: scan_exp_def split: list.splits if_splits dest!: exp_digits_le [rotated])

lemma scan_unsigned_shorter: "scan_unsigned neg s = Some (v, r) \<Longrightarrow> length r < length s"
  by (auto simp: scan_unsigned_def split: option.splits prod.splits
      dest!: scan_int_part_shorter scan_frac_le scan_exp_le)

lemma scan_number_shorter: "scan_number s = Some (v, r) \<Longrightarrow> length r < length s"
  by (auto simp: scan_number_def split: if_splits dest!: scan_unsigned_shorter)

lemma prefix_ustr_length: "prefix p s \<Longrightarrow> p \<noteq> [] \<Longrightarrow> length (drop (length p) s) < length s"
  by (cases s) (auto simp: prefix_def)

lemma scan_scalar_shorter: "scan_scalar s = Some (v, r) \<Longrightarrow> length r < length s"
  by (auto simp: scan_scalar_def ustr_def split: if_splits dest: scan_number_shorter
      dest!: prefix_ustr_length)

section \<open>The response normalizer: the two lists have the same length\<close>

lemma pad_explanations_eq:
  "pad_explanations bl ex = ex @ replicate (length bl - length ex) (ustr ''Bug detected'')"
proof (induction bl ex rule: pad_explanations.induct)
  case (1 bl ex)
  show ?case
  proof (cases "length ex < length bl")
    case True
    then have "length bl - length ex = Suc (length bl - length (ex @ [ustr ''Bug detected'']))"
      by simp
    with 1 True show ?thesis
      by (subst pad_explanations.simps) (simp add: replicate_app_Cons_same)
  next
    case False
    then show ?thesis by (subst pad_explanations.simps) simp
  qed
qed

lemma pad_bug_lines_eq:
  "pad_bug_lines bl ex = bl @ replicate (length ex - length bl) []"
proof (induction bl ex rule: pad_bug_lines.induct)
  case (1 bl ex)
  show ?case
  proof (cases "length bl < length ex")
    case True
    then have "length ex - length bl = Suc (length ex - length (bl @ [[]]))"
      by simp
    with 1 True show ?thesis
      by (subst pad_bug_lines.simps) (simp add: replicate_app_Cons_same)
  next
    case False
    then show ?thesis by (subst pad_bug_lines.simps) simp
  qed
qed

lemma reconcile_lengths:
  "length (bug_lines (reconcile bl ex cc)) = length (explanations (reconcile bl ex cc))"
  by (simp add: reconcile_def pad_explanations_eq pad_bug_lines_eq)

lemma collect_lines_lengths:
  "length (fst acc) = length (snd acc) \<Longrightarrow>
   length (fst (collect_lines gs acc)) = length (snd (collect_lines gs acc))"
  by (induction gs acc rule: collect_lines.induct) simp_all

lemma fallback_parse_lengths:
  "length (bug_lines (fallback_parse r)) = length (explanations (fallback_parse r))"
proof -
  obtain bl ex where c: "collect_lines (finditer line_pattern r) ([], []) = (bl, ex)"
    by (cases "collect_lines (finditer line_pattern r) ([], [])")
  have "length (fst (collect_lines (finditer line_pattern r) ([], []))) =
        length (snd (collect_lines (finditer line_pattern r) ([], [])))"
    by (rule collect_lines_lengths) simp
  with c show ?thesis by (simp add: fallback_parse_def)
qed

lemma parse_data_lengths:
  "parse_data L data = Inr res \<Longrightarrow> length (bug_lines res) = length (explanations res)"
  by (auto simp: parse_data_def bind_def reconcile_lengths split: sum.splits)

lemma example_mismatched:
  "parse_llm_response L (ustr ''{\"bug_lines\":[1,2],\"explanations\":[\"only one\"]}'') =
   Inr \<lparr>bug_lines = [ustr ''1'', ustr ''2''],
        explanations = [ustr ''only one'', ustr ''Bug detected''],
        corrected_code = PStr []\<rparr>"
  by (simp add: ustr_def parse_eval re_eval json_eval)

text \<open>
  C1. Whatever the reply, a record that \<open>parse_llm_response\<close> returns has as many
  explanations as bug lines: the default for an empty reply, the result of the fallback
  parser, and the result of the strict path after its two padding loops.
\<close>

theorem parse_llm_response_lengths:
  "parse_llm_response L response = Inr res \<Longrightarrow>
   length (bug_lines res) = length (explanations res)"
  by (auto simp: parse_llm_response_def default_result_def fallback_parse_lengths
      dest: parse_data_lengths split: if_splits option.splits)

theorem parse_llm_response_lengths_witness:
  "parse_llm_response example_lib (ustr ''{\"bug_lines\":[1,2],\"explanations\":[\"only one\"]}'') =
     Inr \<lparr>bug_lines = [ustr ''1'', ustr ''2''],
          explanations = [ustr ''only one'', ustr ''Bug detected''],
          corrected_code = PStr []\<rparr> \<and>
   length (bug_lines \<lparr>bug_lines = [ustr ''1'', ustr ''2''],
          explanations = [ustr ''only one'', ustr ''Bug detected''],
          corrected_code = PStr []\<rparr>) =
   length (explanations \<lparr>bug_lines = [ustr ''1'', ustr ''2''],
          explanations = [ustr ''only one'', ustr ''Bug detected''],
          corrected_code = PStr []\<rparr>)"
proof -
  have h: "parse_llm_response example_lib (ustr ''{\"bug_lines\":[1,2],\"explanations\":[\"only one\"]}'') =
     Inr \<lparr>bug_lines = [ustr ''1'', ustr ''2''],
          explanations = [ustr ''only one'', ustr ''Bug detected''],
          corrected_code = PStr []\<rparr>"
    by (rule example_mismatched)
  from parse_llm_response_lengths [OF h] h show ?thesis by (rule_tac conjI)
qed

section \<open>The response normalizer: the strict path\<close>

lemma map_raise_truncate_strings:
  "map_raise (\<lambda>e. truncate_val e n) (map PStr es) = Inr (map (\<lambda>e. truncate_words e n) es)"
  by (induction es) (simp_all add: truncate_val_def)

lemma example_candidate:
  "candidate (ustr ''{\"bug_lines\":[1,2],\"explanations\":[\"only one\"]}'') =
   ustr ''{\"bug_lines\":[1,2],\"explanations\":[\"only one\"]}''"
  by (simp add: ustr_def re_eval)

lemma example_loads:
  "json_loads (ustr ''{\"bug_lines\":[1,2],\"explanations\":[\"only one\"]}'') =
   Some (PDict [(ustr ''bug_lines'', PList [PInt 1, PInt 2]),
                (ustr ''explanations'', PList [PStr (ustr ''only one'')])])"
  by (simp add: ustr_def json_eval)

text \<open>
  C5. When \<open>json.loads\<close> returns an object for a reply that is not blank, its bug lines
  iterate to \<open>ls\<close> and its explanations are the strings \<open>es\<close>, the result keeps every
  entry of both lists (the bug lines as text, the explanations truncated to 15 words) and
  pads the shorter one: the explanations with \<open>Bug detected\<close>, the bug lines with the
  empty string. The witness is the reply with bug lines 1, 2 and the one explanation
  \<open>only one\<close>.
\<close>

theorem strict_path_reconciles:
  assumes "py_strip response \<noteq> []"
    and "json_loads (candidate response) = Some (PDict kvs)"
    and "py_iter (dict_get kvs (ustr ''bug_lines'') (PList [])) = Inr ls"
    and "py_iter (dict_get kvs (ustr ''explanations'') (PList [])) = Inr (map PStr es)"
  shows "parse_llm_response L response =
     Inr \<lparr>bug_lines = map (py_str L) ls @ replicate (length es - length ls) [],
          explanations = map (\<lambda>e. truncate_words e 15) es @
                         replicate (length ls - length es) (ustr ''Bug detected''),
          corrected_code = dict_get kvs (ustr ''corrected_code'') (PStr [])\<rparr>"
proof -
  from assms(1) have nonblank: "response \<noteq> []"
    by (auto simp: py_strip_def)
  have "parse_data L (PDict kvs) =
     Inr (reconcile (map (py_str L) ls) (map (\<lambda>e. truncate_words e 15) es)
            (dict_get kvs (ustr ''corrected_code'') (PStr [])))"
    using assms(3,4) by (simp add: parse_data_def bind_def py_get_def map_raise_truncate_strings)
  then show ?thesis
    using assms(1,2) nonblank
    by (simp add: parse_llm_response_def reconcile_def pad_explanations_eq pad_bug_lines_eq)
qed

theorem strict_path_reconciles_witness:
  "parse_llm_response example_lib (ustr ''{\"bug_lines\":[1,2],\"explanations\":[\"only one\"]}'') =
     Inr \<lparr>bug_lines = [ustr ''1'', ustr ''2''],
          explanations = [ustr ''only one'', ustr ''Bug detected''],
          corrected_code = PStr []\<rparr>"
proof -
  let ?r = "ustr ''{\"bug_lines\":[1,2],\"explanations\":[\"only one\"]}''"
  let ?kvs = "[(ustr ''bug_lines'', PList [PInt 1, PInt 2]),
               (ustr ''explanations'', PList [PStr (ustr ''only one'')])]"
  have 1: "py_strip ?r \<noteq> []" by (simp add: ustr_def py_strip_def py_isspace_def)
  have 2: "json_loads (candidate ?r) = Some (PDict ?kvs)"
    by (simp only: example_candidate example_loads)
  have 3: "py_iter (dict_get ?kvs (ustr ''bug_lines'') (PList [])) = Inr [PInt 1, PInt 2]"
    by (simp add: ustr_def dict_get_def py_iter_def)
  have 4: "py_iter (dict_get ?kvs (ustr ''explanations'') (PList [])) = Inr (map PStr [ustr ''only one''])"
    by (simp add: ustr_def dict_get_def py_iter_def)
  show ?thesis
    using strict_path_reconciles [OF 1 2 3 4, of example_lib]
    by (simp add: ustr_def dict_get_def dec_int_def dec_nat.simps truncate_words_def py_split_def py_isspace_def)
qed

lemma split_acc_words_all:
  "list_all (\<lambda>c. \<not> py_isspace c) cur \<Longrightarrow>
   list_all (\<lambda>w. w \<noteq> [] \<and> list_all (\<lambda>c. \<not> py_isspace c) w) (split_acc cur s)"
  by (induction s arbitrary: cur) simp_all

lemma split_acc_words:
  "\<forall>c \<in> set cur. \<not> py_isspace c \<Longrightarrow>
   \<forall>w \<in> set (split_acc cur s). w \<noteq> [] \<and> (\<forall>c \<in> set w. \<not> py_isspace c)"
  using split_acc_words_all [of cur s] by (simp add: list_all_iff)

lemma split_acc_append_word:
  "\<forall>c \<in> set w. \<not> py_isspace c \<Longrightarrow> split_acc cur (w @ rest) = split_acc (cur @ w) rest"
  by (induction w arbitrary: cur) simp_all

lemma split_join_words:
  "\<forall>w \<in> set ws. w \<noteq> [] \<and> (\<forall>c \<in> set w. \<not> py_isspace c) \<Longrightarrow>
   py_split (join (ustr '' '') ws) = ws"
proof (induction "ustr '' ''" ws rule: join.induct)
  case 1
  then show ?case by (simp add: py_split_def)
next
  case (2 x)
  then have "split_acc [] (x @ []) = split_acc ([] @ x) []"
    by (intro split_acc_append_word) simp
  with 2 show ?case by (simp add: py_split_def)
next
  case (3 x y ys)
  then have "split_acc [] (x @ (32 # join (ustr '' '') (y # ys))) = split_acc ([] @ x) (32 # join (ustr '' '') (y # ys))"
    by (intro split_acc_append_word) simp
  moreover have "py_isspace 32" by (simp add: py_isspace_def)
  moreover from 3 have "py_split (join (ustr '' '') (y # ys)) = y # ys" by simp
  ultimately show ?case using 3(2) by (simp add: py_split_def ustr_def)
qed

lemma truncate_words_count: "length (py_split (truncate_words s n)) \<le> n"
proof (cases "length (py_split s) \<le> n")
  case True
  then show ?thesis by (simp add: truncate_words_def)
next
  case False
  have "\<forall>w \<in> set (py_split s). w \<noteq> [] \<and> (\<forall>c \<in> set w. \<not> py_isspace c)"
    unfolding py_split_def by (rule split_acc_words) simp
  then have "\<forall>w \<in> set (take n (py_split s)). w \<noteq> [] \<and> (\<forall>c \<in> set w. \<not> py_isspace c)"
    by (meson in_set_takeD)
  then have "py_split (join (ustr '' '') (take n (py_split s))) = take n (py_split s)"
    by (rule split_join_words)
  with False show ?thesis by (simp add: truncate_words_def)
qed

lemma map_raise_truncate_count:
  "map_raise (\<lambda>e. truncate_val e n) es = Inr ex \<Longrightarrow> \<forall>x \<in> set ex. length (py_split x) \<le> n"
proof (induction es arbitrary: ex)
  case Nil
  then show ?case by simp
next
  case (Cons e es)
  then show ?case
    by (auto simp: truncate_val_def truncate_words_count split: sum.splits pyval.splits)
qed

lemma placeholder_words: "length (py_split (ustr ''Bug detected'')) = 2"
  by (simp add: py_split_def ustr_def py_isspace_def)

text \<open>
  On the strict path every explanation has at most 15 words: the explanations of the
  reply are truncated, and the placeholder has two words.
\<close>

theorem strict_path_word_count:
  "parse_data L data = Inr res \<Longrightarrow> \<forall>x \<in> set (explanations res). length (py_split x) \<le> 15"
  by (auto simp: parse_data_def bind_def reconcile_def pad_explanations_eq placeholder_words
      split: sum.splits dest!: map_raise_truncate_count)

section \<open>The response normalizer: the fallback path\<close>

text \<open>
  When \<open>json.loads\<close> raises \<open>JSONDecodeError\<close> for a reply that is not blank, the result
  is the fallback parser's, on the reply as it was received.
\<close>

lemma decode_failure_falls_back:
  "py_strip response \<noteq> [] \<Longrightarrow> json_loads (candidate response) = None \<Longrightarrow>
   parse_llm_response L response = Inr (fallback_parse response)"
  by (auto simp: parse_llm_response_def py_strip_def)

lemma example_prose:
  "parse_llm_response L (ustr ''Line 5: wrong pin name D0 vs DO'') =
     Inr \<lparr>bug_lines = [ustr ''5''],
          explanations = [ustr ''wrong pin name D0 vs DO''],
          corrected_code = PStr []\<rparr>"
  by (simp add: ustr_def parse_eval re_eval json_eval)

lemma example_fenced:
  "parse_llm_response L (ustr ''```json'' @ [10] @
      ustr ''{\"bug_lines\":[3],\"explanations\":[\"iClamp args swapped\"],\"corrected_code\":\"iClamp(-50,50);\"}'' @
      [10] @ ustr ''```'') =
     Inr \<lparr>bug_lines = [ustr ''3''],
          explanations = [ustr ''iClamp args swapped''],
          corrected_code = PStr (ustr ''iClamp(-50,50);'')\<rparr>"
  by (simp add: ustr_def parse_eval re_eval json_eval)

text \<open>
  C3. The reply \<open>Line 7: a b c d e f g h i j k l m n o p q\<close> is no JSON, so the fallback
  parser reads it; the explanation it returns has 17 words: \<open>_truncate\<close> is applied on
  the strict path alone.
\<close>

theorem fallback_keeps_long_explanation:
  "parse_llm_response L (ustr ''Line 7: a b c d e f g h i j k l m n o p q'') =
     Inr \<lparr>bug_lines = [ustr ''7''],
          explanations = [ustr ''a b c d e f g h i j k l m n o p q''],
          corrected_code = PStr []\<rparr> \<and>
   length (py_split (ustr ''a b c d e f g h i j k l m n o p q'')) = 17"
  by (simp add: ustr_def parse_eval re_eval json_eval)

text \<open>
  C4. The reply \<open>[]\<close> holds no JSON object, and \<open>json.loads\<close> returns a list for it:
  \<open>parse_llm_response\<close> raises \<open>AttributeError\<close> at \<open>data.get\<close>, where the fallback parser
  would have returned the empty result.
\<close>

theorem non_object_json_raises:
  "parse_llm_response L (ustr ''[]'') =
     Inl (AttributeError (quoted (ustr ''list'') @ ustr '' object has no attribute '' @ quoted (ustr ''get''))) \<and>
   fallback_parse (ustr ''[]'') = \<lparr>bug_lines = [], explanations = [], corrected_code = PStr []\<rparr>"
  by (simp add: ustr_def parse_eval re_eval json_eval)

section \<open>The orchestrator\<close>

lemma py_strip_nonspace: "\<not> py_isspace c \<Longrightarrow> py_strip (c # s) \<noteq> []"
  by (auto simp: py_strip_def dropWhile_eq_Nil_conv)

lemma analyze_entry_raised:
  "analyze_steps L W entry_id code context = Inl e \<Longrightarrow>
   analyze_entry L W entry_id code context = error_dict entry_id e"
  by (simp add: analyze_entry_def)

text \<open>
  C2. \<open>analyze_entry\<close> is a total function: it returns a record for every input and
  every behaviour of the collaborators. When a step of its \<open>try\<close> block raises \<open>e\<close> (the
  evidence formatter, the static analysis, the model call or the normalizer, the steps
  before it having returned), the record has an empty bug line, an empty corrected code,
  no documents and the explanation \<open>Error: \<close> followed by the text of \<open>e\<close>.
\<close>

theorem analyze_entry_catches:
  "(format_rag_docs (search_docs W context) 5 = Inl e \<longrightarrow>
      analyze_entry L W entry_id code context = error_dict entry_id e) \<and>
   (format_rag_docs (search_docs W context) 5 = Inr rag \<and> check_code_snippet W code = Inl e \<longrightarrow>
      analyze_entry L W entry_id code context = error_dict entry_id e) \<and>
   (format_rag_docs (search_docs W context) 5 = Inr rag \<and> check_code_snippet W code = Inr st \<and>
    call_llm L W (build_analysis_prompt (add_line_numbers code) context rag st) = Inl e \<longrightarrow>
      analyze_entry L W entry_id code context = error_dict entry_id e) \<and>
   (format_rag_docs (search_docs W context) 5 = Inr rag \<and> check_code_snippet W code = Inr st \<and>
    call_llm L W (build_analysis_prompt (add_line_numbers code) context rag st) = Inr reply \<and>
    parse_reply L reply = Inl e \<longrightarrow>
      analyze_entry L W entry_id code context = error_dict entry_id e) \<and>
   error_dict entry_id e =
     [(ustr ''ID'', PStr entry_id),
      (ustr ''Bug Line'', PStr []),
      (ustr ''Explanation'', PStr (ustr ''Error: '' @ exn_str e)),
      (ustr ''Corrected Code'', PStr []),
      (ustr ''RAG Docs'', PList [])]"
  by (simp add: analyze_entry_def analyze_steps_def bind_def error_dict_def)

lemma quiet_docs: "search_docs (quiet_world a) q = []"
  by (simp add: search_docs_def quiet_world_def)

lemma quiet_check: "check_code_snippet (quiet_world a) code = Inr []"
  by (simp add: check_code_snippet_def try_cppcheck_def quiet_world_def bind_def findings_of_def py_strip_def)

lemma format_rag_docs_Nil: "format_rag_docs [] k = Inr []"
  by (simp add: format_rag_docs_def)

theorem analyze_entry_catches_witness:
  "analyze_entry example_lib
     (quiet_world (Inl (External (ustr ''ConnectError'') (ustr ''All connection attempts failed''))))
     (ustr ''17'') (ustr ''rdi.burst();'') (ustr ''run the burst'') =
     [(ustr ''ID'', PStr (ustr ''17'')),
      (ustr ''Bug Line'', PStr []),
      (ustr ''Explanation'', PStr (ustr ''Error: All connection attempts failed'')),
      (ustr ''Corrected Code'', PStr []),
      (ustr ''RAG Docs'', PList [])]"
proof -
  let ?e = "External (ustr ''ConnectError'') (ustr ''All connection attempts failed'')"
  let ?W = "quiet_world (Inl ?e)"
  have 1: "format_rag_docs (search_docs ?W (ustr ''run the burst'')) 5 = Inr []"
    by (simp only: quiet_docs format_rag_docs_Nil)
  have 2: "check_code_snippet ?W (ustr ''rdi.burst();'') = Inr []"
    by (rule quiet_check)
  have 3: "call_llm example_lib ?W
             (build_analysis_prompt (add_line_numbers (ustr ''rdi.burst();'')) (ustr ''run the burst'') [] []) = Inl ?e"
    by (simp add: call_llm_def quiet_world_def bind_def)
  from analyze_entry_catches [of ?W "ustr ''run the burst''" ?e example_lib "ustr ''17''" "ustr ''rdi.burst();''" "[]" "[]"] 1 2 3
  show ?thesis by (simp add: ustr_def)
qed


lemma result_dict_keys:
  "map fst (result_dict entry_id p docs) =
   [ustr ''ID'', ustr ''Bug Line'', ustr ''Explanation'', ustr ''Corrected Code'', ustr ''RAG Docs'']"
  by (simp add: result_dict_def)

lemma error_dict_keys:
  "map fst (error_dict entry_id e) =
   [ustr ''ID'', ustr ''Bug Line'', ustr ''Explanation'', ustr ''Corrected Code'', ustr ''RAG Docs'']"
  by (simp add: error_dict_def)

lemma join_Nil_eq: "join sep [] = []"
  by simp

lemma analyze_entry_cases:
  "(\<exists>p. analyze_entry L W entry_id code context = result_dict entry_id p (search_docs W context)) \<or>
   (\<exists>e. analyze_entry L W entry_id code context = error_dict entry_id e)"
  by (auto simp: analyze_entry_def analyze_steps_def bind_def split: sum.splits)

text \<open>
  C10. The record \<open>analyze_entry\<close> returns has the keys \<open>ID\<close>, \<open>Bug Line\<close>,
  \<open>Explanation\<close>, \<open>Corrected Code\<close> and \<open>RAG Docs\<close>, in this order, on both paths; \<open>ID\<close> is
  the identifier given; \<open>Bug Line\<close> and \<open>Explanation\<close> are strings, and when every step
  returns they are the bug lines joined with commas and the explanations joined with
  \<open>; \<close> (\<open>No bugs detected\<close> when there is none).
\<close>

theorem analyze_entry_record:
  "map fst (analyze_entry L W entry_id code context) =
     [ustr ''ID'', ustr ''Bug Line'', ustr ''Explanation'', ustr ''Corrected Code'', ustr ''RAG Docs''] \<and>
   map_of (analyze_entry L W entry_id code context) (ustr ''ID'') = Some (PStr entry_id) \<and>
   (\<exists>s. map_of (analyze_entry L W entry_id code context) (ustr ''Bug Line'') = Some (PStr s)) \<and>
   (\<exists>s. map_of (analyze_entry L W entry_id code context) (ustr ''Explanation'') = Some (PStr s)) \<and>
   (format_rag_docs (search_docs W context) 5 = Inr rag \<and> check_code_snippet W code = Inr st \<and>
    call_llm L W (build_analysis_prompt (add_line_numbers code) context rag st) = Inr reply \<and>
    parse_reply L reply = Inr p \<longrightarrow>
      map_of (analyze_entry L W entry_id code context) (ustr ''Bug Line'') =
        Some (PStr (join (ustr '','') (bug_lines p))) \<and>
      map_of (analyze_entry L W entry_id code context) (ustr ''Explanation'') =
        Some (PStr (if explanations p = [] then ustr ''No bugs detected''
                    else join (ustr ''; '') (explanations p))))"
proof -
  have keys: "map fst (analyze_entry L W entry_id code context) =
     [ustr ''ID'', ustr ''Bug Line'', ustr ''Explanation'', ustr ''Corrected Code'', ustr ''RAG Docs'']"
    using analyze_entry_cases [of L W entry_id code "context"]
    by (auto simp: result_dict_keys error_dict_keys)
  have fields: "map_of (analyze_entry L W entry_id code context) (ustr ''ID'') = Some (PStr entry_id) \<and>
   (\<exists>s. map_of (analyze_entry L W entry_id code context) (ustr ''Bug Line'') = Some (PStr s)) \<and>
   (\<exists>s. map_of (analyze_entry L W entry_id code context) (ustr ''Explanation'') = Some (PStr s))"
    using analyze_entry_cases [of L W entry_id code "context"]
    by (auto simp: result_dict_def error_dict_def ustr_def)
  have ok: "format_rag_docs (search_docs W context) 5 = Inr rag \<and> check_code_snippet W code = Inr st \<and>
    call_llm L W (build_analysis_prompt (add_line_numbers code) context rag st) = Inr reply \<and>
    parse_reply L reply = Inr p \<longrightarrow>
      map_of (analyze_entry L W entry_id code context) (ustr ''Bug Line'') =
        Some (PStr (join (ustr '','') (bug_lines p))) \<and>
      map_of (analyze_entry L W entry_id code context) (ustr ''Explanation'') =
        Some (PStr (if explanations p = [] then ustr ''No bugs detected''
                    else join (ustr ''; '') (explanations p)))"
    by (auto simp: analyze_entry_def analyze_steps_def bind_def result_dict_def ustr_def)
  from keys fields ok show ?thesis by blast
qed

lemma chat_reply:
  "call_llm L (quiet_world (ok_response (chat_payload reply))) prompt = Inr (PStr reply)"
  by (simp add: call_llm_def quiet_world_def ok_response_def chat_payload_def bind_def read_reply_def
      has_choices_def chat_content_def py_contains_def py_item_def py_len_def py_first_def ustr_def)

theorem analyze_entry_record_witness:
  "map_of (analyze_entry example_lib
       (quiet_world (ok_response (chat_payload (ustr ''{\"bug_lines\":[1,2],\"explanations\":[\"only one\"]}''))))
       (ustr ''17'') (ustr ''rdi.burst();'') (ustr ''run the burst'')) (ustr ''Bug Line'') =
     Some (PStr (ustr ''1,2'')) \<and>
   map_of (analyze_entry example_lib
       (quiet_world (ok_response (chat_payload (ustr ''{\"bug_lines\":[1,2],\"explanations\":[\"only one\"]}''))))
       (ustr ''17'') (ustr ''rdi.burst();'') (ustr ''run the burst'')) (ustr ''Explanation'') =
     Some (PStr (ustr ''only one; Bug detected''))"
proof -
  let ?reply = "ustr ''{\"bug_lines\":[1,2],\"explanations\":[\"only one\"]}''"
  let ?W = "quiet_world (ok_response (chat_payload ?reply))"
  let ?p = "\<lparr>bug_lines = [ustr ''1'', ustr ''2''],
        explanations = [ustr ''only one'', ustr ''Bug detected''],
        corrected_code = PStr []\<rparr>"
  have 1: "format_rag_docs (search_docs ?W (ustr ''run the burst'')) 5 = Inr []"
    by (simp only: quiet_docs format_rag_docs_Nil)
  have 2: "check_code_snippet ?W (ustr ''rdi.burst();'') = Inr []"
    by (rule quiet_check)
  have 3: "call_llm example_lib ?W
             (build_analysis_prompt (add_line_numbers (ustr ''rdi.burst();'')) (ustr ''run the burst'') [] []) =
           Inr (PStr ?reply)"
    by (rule chat_reply)
  have 4: "parse_reply example_lib (PStr ?reply) = Inr ?p"
    by (simp add: parse_reply_def example_mismatched)
  from analyze_entry_record [of example_lib ?W "ustr ''17''" "ustr ''rdi.burst();''" "ustr ''run the burst''" "[]" "[]" "PStr ?reply" ?p]
    1 2 3 4
  show ?thesis by (simp add: ustr_def)
qed

section \<open>The static analysis step\<close>

lemma error_text_not_blank:
  "ustr ''Error running cppcheck: '' @ m \<noteq> [] \<and> py_strip (ustr ''Error running cppcheck: '' @ m) \<noteq> []"
  by (simp add: ustr_def py_strip_nonspace py_isspace_def)

text \<open>
  C9, as stated, fails: when cppcheck cannot be started, the findings text is not empty
  and the prompt has a static analysis section.
\<close>

theorem cppcheck_failure_counterexample:
  "check_code_snippet (no_cppcheck_world (ok_response (chat_payload (ustr ''{}'')))) (ustr ''rdi.burst();'') =
     Inr (ustr ''Error running cppcheck: [Errno 2] No such file or directory: cppcheck'') \<and>
   ustr ''Error running cppcheck: [Errno 2] No such file or directory: cppcheck'' \<noteq> [] \<and>
   static_section (ustr ''Error running cppcheck: [Errno 2] No such file or directory: cppcheck'') =
     [10] @ ustr ''**Static Analysis Findings (CppCheck):**'' @ [10] @
     ustr ''Error running cppcheck: [Errno 2] No such file or directory: cppcheck'' @ [10] @
     ustr ''(Note: Use these findings as strong evidence, but verify them against the context.)'' @ [10]"
proof -
  have "check_code_snippet (no_cppcheck_world (ok_response (chat_payload (ustr ''{}'')))) (ustr ''rdi.burst();'') =
     Inr (ustr ''Error running cppcheck: '' @ ustr ''[Errno 2] No such file or directory: cppcheck'')"
    by (simp add: check_code_snippet_def try_cppcheck_def no_cppcheck_world_def quiet_world_def bind_def)
  moreover have "ustr ''Error running cppcheck: '' @ ustr ''[Errno 2] No such file or directory: cppcheck'' =
     ustr ''Error running cppcheck: [Errno 2] No such file or directory: cppcheck''"
    by (simp add: ustr_def)
  moreover have "static_section (ustr ''Error running cppcheck: '' @ ustr ''[Errno 2] No such file or directory: cppcheck'') =
     [10] @ ustr ''**Static Analysis Findings (CppCheck):**'' @ [10] @
     (ustr ''Error running cppcheck: '' @ ustr ''[Errno 2] No such file or directory: cppcheck'') @ [10] @
     ustr ''(Note: Use these findings as strong evidence, but verify them against the context.)'' @ [10]"
    using error_text_not_blank [of "ustr ''[Errno 2] No such file or directory: cppcheck''"]
    by (simp add: static_section_def)
  ultimately show ?thesis
    using error_text_not_blank [of "ustr ''[Errno 2] No such file or directory: cppcheck''"] by simp
qed

text \<open>A part that is joined is a part of the whole.\<close>

lemma join_sublist:
  "x \<in> set xs \<Longrightarrow> sublist x (join sep xs)"
proof (induction sep xs rule: join.induct)
  case (1 sep)
  then show ?case by simp
next
  case (2 sep y)
  then show ?case by simp
next
  case (3 sep y z zs)
  show ?case
  proof (cases "x = y")
    case True
    have "join sep (y # z # zs) = [] @ y @ (sep @ join sep (z # zs))" by simp
    with True show ?thesis unfolding sublist_def by blast
  next
    case False
    with 3 have "sublist x (join sep (z # zs))" by simp
    then obtain ps ss where "join sep (z # zs) = ps @ x @ ss"
      by (auto simp: sublist_def)
    then have "join sep (y # z # zs) = (y @ sep @ ps) @ x @ ss" by simp
    then show ?thesis unfolding sublist_def by blast
  qed
qed

lemma prompt_has_static_section:
  "sublist (static_section static_errors) (build_analysis_prompt numbered_code context rag_docs static_errors)"
  unfolding build_analysis_prompt_def by (rule join_sublist) simp

text \<open>
  C9, amended. When the temporary file is written and removed and the run of cppcheck
  raises \<open>e\<close>, \<open>check_code_snippet\<close> returns the text \<open>Error running cppcheck: \<close> followed by
  the text of \<open>e\<close>. The static analysis section made from this text is the header, the
  text and the note, and it is a part of the prompt that \<open>analyze_entry\<close> sends: the
  analysis is the one that searches, calls the model with the prompt built from this
  text, and reads the reply, and its record is the error record only when one of these
  steps raises. The failure is not surfaced: when the other steps return, the record is
  the one made from the model's reply.
\<close>

theorem cppcheck_failure_becomes_finding:
  assumes "make_temp W code = Inr path"
    and "run_cppcheck W path = Inl e"
    and "remove_temp W path = None"
  shows "check_code_snippet W code = Inr (ustr ''Error running cppcheck: '' @ exn_str e) \<and>
    static_section (ustr ''Error running cppcheck: '' @ exn_str e) =
      [10] @ ustr ''**Static Analysis Findings (CppCheck):**'' @ [10] @
      (ustr ''Error running cppcheck: '' @ exn_str e) @ [10] @
      ustr ''(Note: Use these findings as strong evidence, but verify them against the context.)'' @ [10] \<and>
    sublist (static_section (ustr ''Error running cppcheck: '' @ exn_str e))
      (build_analysis_prompt (add_line_numbers code) context rag
         (ustr ''Error running cppcheck: '' @ exn_str e)) \<and>
    analyze_entry L W entry_id code context =
      (case bind (format_rag_docs (search_docs W context) 5) (\<lambda>rag_text.
            bind (call_llm L W (build_analysis_prompt (add_line_numbers code) context rag_text
                                  (ustr ''Error running cppcheck: '' @ exn_str e))) (\<lambda>response_text.
            bind (parse_reply L response_text) (\<lambda>result.
            Inr (result_dict entry_id result (search_docs W context))))) of
         Inr d \<Rightarrow> d
       | Inl e' \<Rightarrow> error_dict entry_id e') \<and>
    (format_rag_docs (search_docs W context) 5 = Inr rag \<and>
     call_llm L W (build_analysis_prompt (add_line_numbers code) context rag
                     (ustr ''Error running cppcheck: '' @ exn_str e)) = Inr reply \<and>
     parse_reply L reply = Inr p \<longrightarrow>
       analyze_entry L W entry_id code context = result_dict entry_id p (search_docs W context))"
proof -
  have c: "check_code_snippet W code = Inr (ustr ''Error running cppcheck: '' @ exn_str e)"
    using assms by (simp add: check_code_snippet_def try_cppcheck_def bind_def)
  have s: "static_section (ustr ''Error running cppcheck: '' @ exn_str e) =
      [10] @ ustr ''**Static Analysis Findings (CppCheck):**'' @ [10] @
      (ustr ''Error running cppcheck: '' @ exn_str e) @ [10] @
      ustr ''(Note: Use these findings as strong evidence, but verify them against the context.)'' @ [10]"
    using error_text_not_blank [of "exn_str e"] by (simp add: static_section_def)
  have b: "sublist (static_section (ustr ''Error running cppcheck: '' @ exn_str e))
      (build_analysis_prompt (add_line_numbers code) context rag
         (ustr ''Error running cppcheck: '' @ exn_str e))"
    by (rule prompt_has_static_section)
  have r: "analyze_entry L W entry_id code context =
      (case bind (format_rag_docs (search_docs W context) 5) (\<lambda>rag_text.
            bind (call_llm L W (build_analysis_prompt (add_line_numbers code) context rag_text
                                  (ustr ''Error running cppcheck: '' @ exn_str e))) (\<lambda>response_text.
            bind (parse_reply L response_text) (\<lambda>result.
            Inr (result_dict entry_id result (search_docs W context))))) of
         Inr d \<Rightarrow> d
       | Inl e' \<Rightarrow> error_dict entry_id e')"
    using c by (simp add: analyze_entry_def analyze_steps_def bind_def)
  have a: "format_rag_docs (search_docs W context) 5 = Inr rag \<and>
     call_llm L W (build_analysis_prompt (add_line_numbers code) context rag
                     (ustr ''Error running cppcheck: '' @ exn_str e)) = Inr reply \<and>
     parse_reply L reply = Inr p \<longrightarrow>
       analyze_entry L W entry_id code context = result_dict entry_id p (search_docs W context)"
    using c by (simp add: analyze_entry_def analyze_steps_def bind_def)
  from c s b r a show ?thesis by blast
qed

theorem cppcheck_failure_becomes_finding_witness:
  "check_code_snippet (no_cppcheck_world (ok_response (chat_payload (ustr ''{\"bug_lines\":[1,2],\"explanations\":[\"only one\"]}''))))
     (ustr ''rdi.burst();'') =
     Inr (ustr ''Error running cppcheck: [Errno 2] No such file or directory: cppcheck'') \<and>
   sublist
     ([10] @ ustr ''**Static Analysis Findings (CppCheck):**'' @ [10] @
      ustr ''Error running cppcheck: [Errno 2] No such file or directory: cppcheck'' @ [10] @
      ustr ''(Note: Use these findings as strong evidence, but verify them against the context.)'' @ [10])
     (build_analysis_prompt (add_line_numbers (ustr ''rdi.burst();'')) (ustr ''run the burst'') []
        (ustr ''Error running cppcheck: [Errno 2] No such file or directory: cppcheck'')) \<and>
   analyze_entry example_lib
     (no_cppcheck_world (ok_response (chat_payload (ustr ''{\"bug_lines\":[1,2],\"explanations\":[\"only one\"]}''))))
     (ustr ''17'') (ustr ''rdi.burst();'') (ustr ''run the burst'') =
     [(ustr ''ID'', PStr (ustr ''17'')),
      (ustr ''Bug Line'', PStr (ustr ''1,2'')),
      (ustr ''Explanation'', PStr (ustr ''only one; Bug detected'')),
      (ustr ''Corrected Code'', PStr []),
      (ustr ''RAG Docs'', PList [])]"
proof -
  let ?reply = "ustr ''{\"bug_lines\":[1,2],\"explanations\":[\"only one\"]}''"
  let ?W = "no_cppcheck_world (ok_response (chat_payload ?reply))"
  let ?e = "External (ustr ''FileNotFoundError'') (ustr ''[Errno 2] No such file or directory: cppcheck'')"
  let ?E = "ustr ''Error running cppcheck: [Errno 2] No such file or directory: cppcheck''"
  let ?p = "\<lparr>bug_lines = [ustr ''1'', ustr ''2''],
        explanations = [ustr ''only one'', ustr ''Bug detected''],
        corrected_code = PStr []\<rparr>"
  have 1: "make_temp ?W (ustr ''rdi.burst();'') = Inr (ustr ''/tmp/tmpk3v9.cpp'')"
    by (simp add: no_cppcheck_world_def quiet_world_def)
  have 2: "run_cppcheck ?W (ustr ''/tmp/tmpk3v9.cpp'') = Inl ?e"
    by (simp add: no_cppcheck_world_def quiet_world_def)
  have 3: "remove_temp ?W (ustr ''/tmp/tmpk3v9.cpp'') = None"
    by (simp add: no_cppcheck_world_def quiet_world_def)
  have E: "ustr ''Error running cppcheck: '' @ exn_str ?e = ?E"
    by (simp add: ustr_def)
  have docs: "search_docs ?W (ustr ''run the burst'') = []"
    by (simp add: search_docs_def no_cppcheck_world_def quiet_world_def)
  have 4: "format_rag_docs (search_docs ?W (ustr ''run the burst'')) 5 = Inr []"
    by (simp only: docs format_rag_docs_Nil)
  have 5: "call_llm example_lib ?W
             (build_analysis_prompt (add_line_numbers (ustr ''rdi.burst();'')) (ustr ''run the burst'') [] ?E) =
           Inr (PStr ?reply)"
    by (simp add: call_llm_def no_cppcheck_world_def quiet_world_def ok_response_def chat_payload_def bind_def
        read_reply_def has_choices_def chat_content_def py_contains_def py_item_def py_len_def py_first_def ustr_def)
  have 6: "parse_reply example_lib (PStr ?reply) = Inr ?p"
    by (simp add: parse_reply_def example_mismatched)
  note t = cppcheck_failure_becomes_finding [OF 1 2 3, of "ustr ''run the burst''" "[]" example_lib "ustr ''17''"
      "PStr ?reply" ?p, unfolded E]
  from t have a: "check_code_snippet ?W (ustr ''rdi.burst();'') = Inr ?E" by blast
  from t have b: "sublist
     ([10] @ ustr ''**Static Analysis Findings (CppCheck):**'' @ [10] @ ?E @ [10] @
      ustr ''(Note: Use these findings as strong evidence, but verify them against the context.)'' @ [10])
     (build_analysis_prompt (add_line_numbers (ustr ''rdi.burst();'')) (ustr ''run the burst'') [] ?E)"
    by metis
  from t 4 5 6 have "analyze_entry example_lib ?W (ustr ''17'') (ustr ''rdi.burst();'') (ustr ''run the burst'') =
      result_dict (ustr ''17'') ?p (search_docs ?W (ustr ''run the burst''))"
    by blast
  then have "analyze_entry example_lib ?W (ustr ''17'') (ustr ''rdi.burst();'') (ustr ''run the burst'') =
      result_dict (ustr ''17'') ?p []"
    by (simp only: docs)
  then have c: "analyze_entry example_lib ?W (ustr ''17'') (ustr ''rdi.burst();'') (ustr ''run the burst'') =
     [(ustr ''ID'', PStr (ustr ''17'')),
      (ustr ''Bug Line'', PStr (ustr ''1,2'')),
      (ustr ''Explanation'', PStr (ustr ''only one; Bug detected'')),
      (ustr ''Corrected Code'', PStr []),
      (ustr ''RAG Docs'', PList [])]"
    by (simp add: result_dict_def ustr_def)
  from a b c show ?thesis by blast
qed

section \<open>The model invoker\<close>

text \<open>
  C6, as stated, fails twice. A payload that is a list, without the \<open>choices\<close> shape, is
  not an error: \<open>call_llm\<close> returns the \<open>generated_text\<close> of its first element. And the
  error for a status outside 200 to 299 does not carry a truncated body: for a response
  with status 503 and a body of 250 characters, the error raised holds the status and the
  body of 250 characters.
\<close>

theorem call_llm_list_payload_counterexample:
  "call_llm example_lib
     (quiet_world (ok_response (PList [PDict [(ustr ''generated_text'', PStr (ustr ''no bugs found''))]])))
     (ustr ''prompt'') = Inr (PStr (ustr ''no bugs found'')) \<and>
   call_llm example_lib
     (quiet_world (Inr \<lparr>status_code = 503, status_error = ustr ''Server error 503'',
                         body = replicate 250 120,
                         json_body = Inl (JSONDecodeError (ustr ''Expecting value''))\<rparr>))
     (ustr ''prompt'') = Inl (HTTPStatusError 503 (ustr ''Server error 503'') (replicate 250 120)) \<and>
   length (replicate 250 (120 :: nat)) = 250"
  by (simp add: call_llm_def quiet_world_def ok_response_def bind_def read_reply_def has_choices_def
      py_contains_def py_get_def dict_get_def ustr_def)

lemma has_choices_dict:
  "has_choices (PDict kvs) =
     (case map_of kvs (ustr ''choices'') of
        None \<Rightarrow> Inr False
      | Some c \<Rightarrow> bind (py_len c) (\<lambda>n. Inr (0 < n)))"
proof (cases "map_of kvs (ustr ''choices'')")
  case None
  then have "ustr ''choices'' \<notin> fst ` set kvs" by (simp add: map_of_eq_None_iff)
  with None show ?thesis by (simp add: has_choices_def py_contains_def bind_def)
next
  case (Some c)
  then have "ustr ''choices'' \<in> fst ` set kvs"
    by (metis map_of_eq_None_iff option.distinct(1))
  with Some show ?thesis by (simp add: has_choices_def py_contains_def py_item_def bind_def)
qed

text \<open>
  When \<open>read_reply\<close> returns a value, the payload has the \<open>choices\<close> shape and the value is
  its content, or the payload is a list that starts with an object and does not hold the
  string \<open>choices\<close>, and the value is what \<open>get\<close> gives for that object.
\<close>

lemma read_reply_returns:
  assumes "read_reply L data = Inr v"
  shows "chat_content data = Inr v \<or>
    (\<exists>d xs. data = PList (PDict d # xs) \<and> PStr (ustr ''choices'') \<notin> set xs \<and>
       v = dict_get d (ustr ''generated_text'') (PStr (py_str L (PDict d))))"
proof (cases "has_choices data")
  case (Inl e)
  with assms show ?thesis by (simp add: read_reply_def bind_def)
next
  case (Inr chat)
  show ?thesis
  proof (cases chat)
    case True
    with Inr assms show ?thesis by (simp add: read_reply_def bind_def)
  next
    case False
    with Inr assms obtain x xs where data: "data = PList (x # xs)"
      and get: "py_get x (ustr ''generated_text'') (PStr (py_str L x)) = Inr v"
      by (auto simp: read_reply_def bind_def split: pyval.splits list.splits)
    from get obtain d where x: "x = PDict d"
      by (cases x) (simp_all add: py_get_def)
    from Inr False data have "PStr (ustr ''choices'') \<notin> set (x # xs)"
      by (auto simp: has_choices_def py_contains_def py_item_def bind_def split: if_splits)
    then have "PStr (ustr ''choices'') \<notin> set xs" by simp
    moreover from get x have "v = dict_get d (ustr ''generated_text'') (PStr (py_str L (PDict d)))"
      by (simp add: py_get_def)
    ultimately show ?thesis using data x by blast
  qed
qed

text \<open>
  C6, amended. \<open>call_llm\<close> raises \<open>HTTPStatusError\<close> for every status outside 200 to 299;
  the error carries the status code and the body of the response, whole. For an object
  without \<open>choices\<close>, or with an empty list of them, it raises \<open>RuntimeError\<close> with the first
  200 characters of \<open>json.dumps\<close> of the payload. It returns a value in two cases only:
  the payload has the \<open>choices\<close> shape and the value is
  \<open>data["choices"][0]["message"]["content"]\<close>; or the payload is a list that starts with an
  object and does not hold the string \<open>choices\<close>, and the value is the \<open>generated_text\<close> of
  that object, or the text of the object when the key is absent. For every payload of
  the second kind, under a status from 200 to 299, it does return that value.
\<close>

theorem call_llm_failures:
  "(http_post W prompt = Inr resp \<and> \<not> (200 \<le> status_code resp \<and> status_code resp \<le> 299) \<longrightarrow>
      call_llm L W prompt = Inl (HTTPStatusError (status_code resp) (status_error resp) (body resp))) \<and>
   (http_post W prompt = Inr resp \<and> 200 \<le> status_code resp \<and> status_code resp \<le> 299 \<and>
    json_body resp = Inr (PDict kvs) \<and>
    (map_of kvs (ustr ''choices'') = None \<or> map_of kvs (ustr ''choices'') = Some (PList [])) \<longrightarrow>
      call_llm L W prompt =
        Inl (RuntimeError (ustr ''Unexpected HF API response format: '' @ take 200 (dumps_text L (PDict kvs))))) \<and>
   (http_post W prompt = Inr resp \<and> json_body resp = Inr data \<and> call_llm L W prompt = Inr v \<longrightarrow>
      chat_content data = Inr v \<or>
      (\<exists>d xs. data = PList (PDict d # xs) \<and> PStr (ustr ''choices'') \<notin> set xs \<and>
         v = dict_get d (ustr ''generated_text'') (PStr (py_str L (PDict d))))) \<and>
   (http_post W prompt = Inr resp \<and> 200 \<le> status_code resp \<and> status_code resp \<le> 299 \<and>
    json_body resp = Inr (PList (PDict d # xs)) \<and> PStr (ustr ''choices'') \<notin> set xs \<longrightarrow>
      call_llm L W prompt = Inr (dict_get d (ustr ''generated_text'') (PStr (py_str L (PDict d)))))"
proof -
  have 1: "http_post W prompt = Inr resp \<and> \<not> (200 \<le> status_code resp \<and> status_code resp \<le> 299) \<longrightarrow>
      call_llm L W prompt = Inl (HTTPStatusError (status_code resp) (status_error resp) (body resp))"
    by (simp add: call_llm_def bind_def)
  have 2: "http_post W prompt = Inr resp \<and> 200 \<le> status_code resp \<and> status_code resp \<le> 299 \<and>
    json_body resp = Inr (PDict kvs) \<and>
    (map_of kvs (ustr ''choices'') = None \<or> map_of kvs (ustr ''choices'') = Some (PList [])) \<longrightarrow>
      call_llm L W prompt =
        Inl (RuntimeError (ustr ''Unexpected HF API response format: '' @ take 200 (dumps_text L (PDict kvs))))"
    by (auto simp: call_llm_def bind_def read_reply_def has_choices_dict py_len_def)
  have 3: "http_post W prompt = Inr resp \<and> json_body resp = Inr data \<and> call_llm L W prompt = Inr v \<longrightarrow>
      chat_content data = Inr v \<or>
      (\<exists>d xs. data = PList (PDict d # xs) \<and> PStr (ustr ''choices'') \<notin> set xs \<and>
         v = dict_get d (ustr ''generated_text'') (PStr (py_str L (PDict d))))"
  proof (intro impI)
    assume a: "http_post W prompt = Inr resp \<and> json_body resp = Inr data \<and> call_llm L W prompt = Inr v"
    then have "read_reply L data = Inr v"
      by (auto simp: call_llm_def bind_def split: if_splits)
    then show "chat_content data = Inr v \<or>
      (\<exists>d xs. data = PList (PDict d # xs) \<and> PStr (ustr ''choices'') \<notin> set xs \<and>
         v = dict_get d (ustr ''generated_text'') (PStr (py_str L (PDict d))))"
      by (rule read_reply_returns)
  qed
  have 4: "http_post W prompt = Inr resp \<and> 200 \<le> status_code resp \<and> status_code resp \<le> 299 \<and>
    json_body resp = Inr (PList (PDict d # xs)) \<and> PStr (ustr ''choices'') \<notin> set xs \<longrightarrow>
      call_llm L W prompt = Inr (dict_get d (ustr ''generated_text'') (PStr (py_str L (PDict d))))"
    by (auto simp: call_llm_def bind_def read_reply_def has_choices_def py_contains_def py_get_def)
  from 1 2 3 4 show ?thesis by blast
qed

theorem call_llm_failures_witness:
  "call_llm example_lib
     (quiet_world (Inr \<lparr>status_code = 503, status_error = ustr ''Server error 503'',
                         body = ustr ''Service Unavailable'', json_body = Inr PNone\<rparr>))
     (ustr ''prompt'') =
     Inl (HTTPStatusError 503 (ustr ''Server error 503'') (ustr ''Service Unavailable'')) \<and>
   call_llm example_lib (quiet_world (ok_response (PDict [(ustr ''error'', PStr (ustr ''loading''))])))
     (ustr ''prompt'') =
     Inl (RuntimeError (ustr ''Unexpected HF API response format: '' @
            take 200 (dumps_text example_lib (PDict [(ustr ''error'', PStr (ustr ''loading''))])))) \<and>
   chat_content (chat_payload (ustr ''no bugs found'')) = Inr (PStr (ustr ''no bugs found'')) \<and>
   call_llm example_lib
     (quiet_world (ok_response (PList [PDict [(ustr ''generated_text'', PStr (ustr ''no bugs found''))]])))
     (ustr ''prompt'') = Inr (PStr (ustr ''no bugs found''))"
proof -
  let ?r1 = "\<lparr>status_code = 503, status_error = ustr ''Server error 503'',
              body = ustr ''Service Unavailable'', json_body = Inr PNone\<rparr>"
  let ?k2 = "[(ustr ''error'', PStr (ustr ''loading''))]"
  let ?r2 = "\<lparr>status_code = 200, status_error = [], body = [], json_body = Inr (PDict ?k2)\<rparr>"
  let ?d3 = "[(ustr ''generated_text'', PStr (ustr ''no bugs found''))]"
  let ?r3 = "\<lparr>status_code = 200, status_error = [], body = [], json_body = Inr (PList [PDict ?d3])\<rparr>"
  let ?p4 = "chat_payload (ustr ''no bugs found'')"
  let ?r4 = "\<lparr>status_code = 200, status_error = [], body = [], json_body = Inr ?p4\<rparr>"
  have a: "call_llm example_lib (quiet_world (Inr ?r1)) (ustr ''prompt'') =
           Inl (HTTPStatusError 503 (ustr ''Server error 503'') (ustr ''Service Unavailable''))"
    using call_llm_failures [where W = "quiet_world (Inr ?r1)" and prompt = "ustr ''prompt''" and resp = ?r1 and L = example_lib]
    by (simp add: quiet_world_def)
  have b: "call_llm example_lib (quiet_world (ok_response (PDict ?k2))) (ustr ''prompt'') =
           Inl (RuntimeError (ustr ''Unexpected HF API response format: '' @
                  take 200 (dumps_text example_lib (PDict ?k2))))"
    using call_llm_failures [where W = "quiet_world (Inr ?r2)" and prompt = "ustr ''prompt''" and resp = ?r2 and L = example_lib and kvs = ?k2]
    by (simp add: quiet_world_def ok_response_def ustr_def)
  have c4: "call_llm example_lib (quiet_world (Inr ?r4)) (ustr ''prompt'') = Inr (PStr (ustr ''no bugs found''))"
    by (simp add: chat_reply ok_response_def [symmetric])
  have c: "chat_content ?p4 = Inr (PStr (ustr ''no bugs found''))"
    using call_llm_failures [where W = "quiet_world (Inr ?r4)" and prompt = "ustr ''prompt''" and resp = ?r4
        and L = example_lib and data = ?p4 and v = "PStr (ustr ''no bugs found'')"] c4
    by (simp add: quiet_world_def chat_payload_def)
  have d: "call_llm example_lib (quiet_world (ok_response (PList [PDict ?d3]))) (ustr ''prompt'') =
           Inr (PStr (ustr ''no bugs found''))"
    using call_llm_failures [where W = "quiet_world (Inr ?r3)" and prompt = "ustr ''prompt''" and resp = ?r3 and L = example_lib and d = ?d3 and xs = "[]"]
    by (simp add: quiet_world_def ok_response_def dict_get_def ustr_def)
  from a b c d show ?thesis by blast
qed

section \<open>The evidence formatter\<close>

lemma py_lt_scores:
  "is_score a \<Longrightarrow> is_score b \<Longrightarrow> py_lt a b = Inr (num_val a < num_val b)"
  by (cases a; cases b) (auto simp: is_score_def num_val_def split: pyfloat.splits)

lemma py_insort_scores:
  "is_score (fst x) \<Longrightarrow> \<forall>y \<in> set ys. is_score (fst y) \<Longrightarrow>
   py_insort x ys = Inr (ins_after (\<lambda>p. num_val (fst p)) x ys)"
  by (induction ys) (simp_all add: py_lt_scores)

lemma set_ins_after: "set (ins_after f x ys) = insert x (set ys)"
  by (induction ys) auto

lemma py_sort_from_scores:
  "\<forall>y \<in> set acc. is_score (fst y) \<Longrightarrow> \<forall>y \<in> set xs. is_score (fst y) \<Longrightarrow>
   py_sort_from acc xs = Inr (foldl (\<lambda>a x. ins_after (\<lambda>p. num_val (fst p)) x a) acc xs)"
  by (induction xs arbitrary: acc) (simp_all add: py_insort_scores set_ins_after)

lemma sorted_ins_after:
  "sorted (map f ys) \<Longrightarrow> sorted (map f (ins_after f x ys))"
  by (induction ys) (auto simp: set_ins_after)

lemma insort_key_all_less:
  "\<forall>z \<in> set T. g z < g x \<Longrightarrow> insort_key g x T = T @ [x]"
  by (induction T) auto

lemma insort_key_snoc:
  "g x \<le> g y \<Longrightarrow> insort_key g x (T @ [y]) = insort_key g x T @ [y]"
  by (induction T) auto

lemma rev_ins_after:
  "sorted (map f S) \<Longrightarrow> rev (ins_after f x S) = insort_key (\<lambda>x. - f x) x (rev S)"
proof (induction S)
  case Nil
  then show ?case by simp
next
  case (Cons y S)
  show ?case
  proof (cases "f x < f y")
    case True
    with Cons.prems have "\<forall>z \<in> set (rev (y # S)). - f z < - f x"
      by auto
    then have "insort_key (\<lambda>x. - f x) x (rev (y # S)) = rev (y # S) @ [x]"
      by (rule insort_key_all_less)
    with True show ?thesis by simp
  next
    case False
    then have le: "- f x \<le> - f y" by simp
    from Cons.prems have "sorted (map f S)" by simp
    then have "rev (ins_after f x S) = insort_key (\<lambda>x. - f x) x (rev S)"
      by (rule Cons.IH)
    with False insort_key_snoc [of "\<lambda>x. - f x" x y "rev S", OF le] show ?thesis by simp
  qed
qed

lemma foldr_ins_after:
  "sorted (map f (foldr (ins_after f) xs [])) \<and>
   rev (foldr (ins_after f) xs []) = sort_key (\<lambda>x. - f x) xs"
  by (induction xs) (simp_all add: sorted_ins_after rev_ins_after)

lemma insort_key_map:
  "insort_key f (g x) (map g xs) = map g (insort_key (\<lambda>x. f (g x)) x xs)"
  by (induction xs) simp_all

lemma sort_key_map:
  "sort_key f (map g xs) = map g (sort_key (\<lambda>x. f (g x)) xs)"
  by (induction xs) (simp_all add: insort_key_map)

lemma py_sorted_reverse_scores:
  assumes "\<forall>d \<in> set docs. is_score (k d)"
  shows "py_sorted_reverse (zip (map k docs) docs) = Inr (sort_key (\<lambda>d. - num_val (k d)) docs)"
proof -
  let ?f = "\<lambda>p :: pyval \<times> 'a. num_val (fst p)"
  have z: "zip (map k docs) docs = map (\<lambda>d. (k d, d)) docs"
    by (induction docs) simp_all
  have sc: "\<forall>y \<in> set (rev (map (\<lambda>d. (k d, d)) docs)). is_score (fst y)"
    using assms by auto
  have "py_sort_from [] (rev (map (\<lambda>d. (k d, d)) docs)) =
        Inr (foldl (\<lambda>a x. ins_after ?f x a) [] (rev (map (\<lambda>d. (k d, d)) docs)))"
    by (rule py_sort_from_scores) (use sc in simp_all)
  also have "foldl (\<lambda>a x. ins_after ?f x a) [] (rev (map (\<lambda>d. (k d, d)) docs)) =
        foldr (ins_after ?f) (map (\<lambda>d. (k d, d)) docs) []"
    by (simp add: foldl_conv_foldr)
  finally have s: "py_sort_from [] (rev (zip (map k docs) docs)) =
        Inr (foldr (ins_after ?f) (map (\<lambda>d. (k d, d)) docs) [])"
    by (simp add: z)
  have "rev (map snd (foldr (ins_after ?f) (map (\<lambda>d. (k d, d)) docs) [])) =
        map snd (sort_key (\<lambda>x. - ?f x) (map (\<lambda>d. (k d, d)) docs))"
    using foldr_ins_after [of ?f "map (\<lambda>d. (k d, d)) docs"] by (simp add: rev_map)
  also have "\<dots> = sort_key (\<lambda>d. - num_val (k d)) docs"
    by (simp add: sort_key_map o_def)
  finally show ?thesis
    using s by (simp add: py_sorted_reverse_def)
qed

lemma wf_get_score:
  "well_formed_hit d \<Longrightarrow> py_get d (ustr ''score'') (PInt 0) = Inr (doc_score d) \<and> is_score (doc_score d)"
  by (cases d) (simp_all add: well_formed_hit_def py_get_def doc_score_def)

lemma wf_get_text:
  "well_formed_hit d \<Longrightarrow>
   bind (py_get d (ustr ''text'') (PStr [])) py_strip_val = Inr (doc_text d)"
  by (cases d) (auto simp: well_formed_hit_def py_get_def doc_text_def bind_def py_strip_val_def
      split: pyval.splits)

lemma format_score:
  "is_score v \<Longrightarrow> \<exists>s. py_format_3f v = Inr s"
  by (cases v) (auto simp: is_score_def py_format_3f_def split: sum.splits pyfloat.splits)

lemma wf_score_text:
  "well_formed_hit d \<Longrightarrow> py_format_3f (doc_score d) = Inr (score_text d)"
  using format_score [of "doc_score d"] wf_get_score [of d]
  by (auto simp: score_text_def)

lemma keys_of_hits:
  "\<forall>d \<in> set docs. well_formed_hit d \<Longrightarrow>
   map_raise (\<lambda>x. py_get x (ustr ''score'') (PInt 0)) docs = Inr (map doc_score docs)"
  by (induction docs) (simp_all add: wf_get_score)

lemma render_doc_hit:
  "well_formed_hit d \<Longrightarrow>
   render_doc i d = Inr (if doc_text d = [] then [] else [doc_block i (score_text d) (doc_text d)])"
  using wf_get_text [of d] wf_get_score [of d] wf_score_text [of d]
  by (auto simp: render_doc_def bind_def split: sum.splits)

lemma render_docs_hits:
  "\<forall>d \<in> set ds. well_formed_hit d \<Longrightarrow>
   render_docs i ds =
     Inr (map (\<lambda>(i, d). doc_block i (score_text d) (doc_text d))
            (filter (\<lambda>(i, d). doc_text d \<noteq> []) (enumerate i ds)))"
  by (induction ds arbitrary: i) (simp_all add: render_doc_hit bind_def)

lemma slice_to_nat: "slice_to xs (int k) = take k xs"
  by (simp add: slice_to_def)

lemma format_rag_docs_hits:
  assumes "\<forall>d \<in> set docs. well_formed_hit d"
  shows "format_rag_docs docs (int k) = Inr (evidence_spec docs k)"
proof (cases "docs = []")
  case True
  then show ?thesis by (simp add: format_rag_docs_def evidence_spec_def)
next
  case False
  have sc: "\<forall>d \<in> set docs. is_score (doc_score d)"
    using assms wf_get_score by blast
  have sorted: "py_sorted_reverse (zip (map doc_score docs) docs) =
                Inr (sort_key (\<lambda>d. - score_val d) docs)"
    using py_sorted_reverse_scores [OF sc] by (simp add: score_val_def)
  have "set (take k (sort_key (\<lambda>d. - score_val d) docs)) \<subseteq> set docs"
    using set_take_subset [of k "sort_key (\<lambda>d. - score_val d) docs"] by simp
  with assms have top: "\<forall>d \<in> set (take k (sort_key (\<lambda>d. - score_val d) docs)). well_formed_hit d"
    by blast
  show ?thesis
    using False
    by (simp add: format_rag_docs_def keys_of_hits [OF assms] sorted slice_to_nat
        render_docs_hits [OF top] bind_def evidence_spec_def)
qed

lemma ranked_order:
  "sorted_wrt (\<lambda>a b. score_val b \<le> score_val a) (sort_key (\<lambda>d. - score_val d) docs) \<and>
   mset (sort_key (\<lambda>d. - score_val d) docs) = mset docs \<and>
   (\<forall>q. filter (\<lambda>d. score_val d = q) (sort_key (\<lambda>d. - score_val d) docs) =
        filter (\<lambda>d. score_val d = q) docs)"
proof -
  have "sorted (map (\<lambda>d. - score_val d) (sort_key (\<lambda>d. - score_val d) docs))"
    by (rule sorted_sort_key)
  then have 1: "sorted_wrt (\<lambda>a b. score_val b \<le> score_val a) (sort_key (\<lambda>d. - score_val d) docs)"
    by (simp add: sorted_map)
  have 3: "filter (\<lambda>d. score_val d = q) (sort_key (\<lambda>d. - score_val d) docs) =
        filter (\<lambda>d. score_val d = q) docs" for q
    using sort_key_stable [of "\<lambda>d. - score_val d" "- q" docs] by simp
  from 1 3 show ?thesis by simp
qed

lemma evidence_blank:
  "\<forall>d \<in> set docs. doc_text d = [] \<Longrightarrow> evidence_spec docs k = []"
proof -
  assume a: "\<forall>d \<in> set docs. doc_text d = []"
  have "set (take k (sort_key (\<lambda>d. - score_val d) docs)) \<subseteq> set docs"
    using set_take_subset [of k "sort_key (\<lambda>d. - score_val d) docs"] by simp
  with a have "\<forall>p \<in> set (enumerate 1 (take k (sort_key (\<lambda>d. - score_val d) docs))). doc_text (snd p) = []"
    by (auto simp: enumerate_eq_zip dest!: set_zip_rightD)
  then have "filter (\<lambda>(i, d). doc_text d \<noteq> []) (enumerate 1 (take k (sort_key (\<lambda>d. - score_val d) docs))) = []"
    by (auto simp: filter_empty_conv)
  then show ?thesis by (simp add: evidence_spec_def)
qed

lemma float_02: "float_of_decimal False 2 (- 1) = Fin False 7205759403792794 (- 55)"
  by (simp add: fl_eval)

lemma float_09: "float_of_decimal False 9 (- 1) = Fin False 8106479329266893 (- 53)"
  by (simp add: fl_eval)

lemma example_hits_well_formed: "\<forall>d \<in> set example_hits. well_formed_hit d"
  by (simp add: example_hits_def well_formed_hit_def is_score_def dict_get_def ustr_def float_02 float_09)

lemma example_hits_spec:
  "evidence_spec example_hits 5 =
     ustr ''[Doc 1 (relevance: 0.900)]:'' @ [10] @ ustr ''B'' @ [10, 10] @
     ustr ''[Doc 2 (relevance: 0.200)]:'' @ [10] @ ustr ''A''"
  by (simp add: evidence_spec_def example_hits_def float_02 float_09 score_val_def num_val_def
      doc_score_def doc_text_def score_text_def dict_get_def fin_val_def enumerate_eq_zip
      py_format_3f_def doc_block_def py_strip_def py_isspace_def fl_eval ustr_def)

text \<open>
  C7. For well-formed hits and a bound \<open>k\<close>, \<open>format_rag_docs\<close> returns what the
  specification states: the hits sorted by descending score (sorted, a permutation,
  hits of equal score in source order), the first \<open>k\<close> of them, without those of empty
  text, each rendered with its rank from 1 and its score to three decimals, separated by
  blank lines; the empty string for no hits, and when every text is empty. The witness
  is the specification's example: B, of score 0.9, comes before A, of score 0.2.
\<close>

theorem format_rag_docs_spec:
  assumes "\<forall>d \<in> set docs. well_formed_hit d"
  shows "format_rag_docs docs (int k) = Inr (evidence_spec docs k) \<and>
    sorted_wrt (\<lambda>a b. score_val b \<le> score_val a) (sort_key (\<lambda>d. - score_val d) docs) \<and>
    mset (sort_key (\<lambda>d. - score_val d) docs) = mset docs \<and>
    (\<forall>q. filter (\<lambda>d. score_val d = q) (sort_key (\<lambda>d. - score_val d) docs) =
         filter (\<lambda>d. score_val d = q) docs) \<and>
    format_rag_docs [] (int k) = Inr [] \<and>
    ((\<forall>d \<in> set docs. doc_text d = []) \<longrightarrow> format_rag_docs docs (int k) = Inr [])"
  using format_rag_docs_hits [OF assms, of k] ranked_order [of docs] evidence_blank [of docs k]
  by (simp add: format_rag_docs_def)

theorem format_rag_docs_spec_witness:
  "format_rag_docs example_hits 5 =
     Inr (ustr ''[Doc 1 (relevance: 0.900)]:'' @ [10] @ ustr ''B'' @ [10, 10] @
          ustr ''[Doc 2 (relevance: 0.200)]:'' @ [10] @ ustr ''A'')"
  using format_rag_docs_spec [OF example_hits_well_formed, of 5] example_hits_spec
  by simp

lemma example_hits_by_evaluation:
  "format_rag_docs example_hits 5 =
     Inr (ustr ''[Doc 1 (relevance: 0.900)]:'' @ [10] @ ustr ''B'' @ [10, 10] @
          ustr ''[Doc 2 (relevance: 0.200)]:'' @ [10] @ ustr ''A'')"
  by (simp add: example_hits_def float_02 float_09 docs_eval fin_val_def fl_eval ustr_def)


text \<open>
  C8, as stated, fails: a score that is a string is not coerced to 0. With a text that
  is not empty the format \<open>.3f\<close> raises \<open>ValueError\<close>; beside a hit with a numeric score the
  comparison of the two keys raises \<open>TypeError\<close>.
\<close>

theorem malformed_score_counterexample:
  "format_rag_docs [PDict [(ustr ''text'', PStr (ustr ''A'')), (ustr ''score'', PStr (ustr ''high''))]] 5 =
     Inl (ValueError (ustr ''Unknown format code '' @ quoted (ustr ''f'') @
                      ustr '' for object of type '' @ quoted (ustr ''str''))) \<and>
   format_rag_docs [PDict [(ustr ''text'', PStr (ustr ''A'')), (ustr ''score'', PStr (ustr ''high''))],
                    PDict [(ustr ''text'', PStr (ustr ''B'')), (ustr ''score'', PFloat (Fin False 9 0))]] 5 =
     Inl (TypeError (quoted (ustr ''<'') @ ustr '' not supported between instances of '' @
                     quoted (ustr ''str'') @ ustr '' and '' @ quoted (ustr ''float'')))"
  by (simp add: docs_eval ustr_def)

lemma set_slice_to: "set (slice_to xs k) \<subseteq> set xs"
  using set_take_subset [of "nat k" xs] set_take_subset [of "length xs - nat (- k)" xs]
  by (simp add: slice_to_def)

lemma slice_to_one: "slice_to [x] k = (if 0 < k then [x] else [])"
  by (cases "nat k") (auto simp: slice_to_def)

text \<open>
  The sort looks at the keys alone: what is done to the elements beside their keys
  commutes with it.
\<close>

lemma py_insort_map:
  "py_insort (apsnd f x) (map (apsnd f) ys) =
     (case py_insort x ys of Inl e \<Rightarrow> Inl e | Inr zs \<Rightarrow> Inr (map (apsnd f) zs))"
  by (induction ys) (auto split: sum.splits)

lemma py_sort_from_map:
  "py_sort_from (map (apsnd f) acc) (map (apsnd f) xs) =
     (case py_sort_from acc xs of Inl e \<Rightarrow> Inl e | Inr zs \<Rightarrow> Inr (map (apsnd f) zs))"
proof (induction xs arbitrary: acc)
  case Nil
  then show ?case by simp
next
  case (Cons x xs)
  show ?case
  proof (cases "py_insort x acc")
    case (Inl e)
    then show ?thesis by (simp add: py_insort_map)
  next
    case (Inr acc')
    with Cons [of acc'] show ?thesis by (simp add: py_insort_map)
  qed
qed

lemma zip_map_apsnd: "zip ks (map f xs) = map (apsnd f) (zip ks xs)"
  by (induction ks xs rule: list_induct2') simp_all

lemma py_sorted_reverse_map:
  "py_sorted_reverse (zip ks (map f xs)) =
     (case py_sorted_reverse (zip ks xs) of Inl e \<Rightarrow> Inl e | Inr ys \<Rightarrow> Inr (map f ys))"
proof -
  have "py_sort_from (map (apsnd f) []) (map (apsnd f) (rev (zip ks xs))) =
     (case py_sort_from [] (rev (zip ks xs)) of Inl e \<Rightarrow> Inl e | Inr zs \<Rightarrow> Inr (map (apsnd f) zs))"
    by (rule py_sort_from_map)
  then show ?thesis
    by (simp add: py_sorted_reverse_def zip_map_apsnd rev_map comp_def split: sum.splits)
qed

text \<open>An object with the score 0 in the place of no score is read as the object itself.\<close>

lemma score_text_distinct: "ustr ''text'' \<noteq> ustr ''score''"
  by (simp add: ustr_def)

lemma get_score_default:
  "py_get (with_default_score d) (ustr ''score'') (PInt 0) = py_get d (ustr ''score'') (PInt 0)"
  by (cases d) (auto simp: with_default_score_def py_get_def dict_get_def split: option.splits)

lemma get_text_default:
  "py_get (with_default_score d) (ustr ''text'') v = py_get d (ustr ''text'') v"
  using score_text_distinct
  by (cases d) (auto simp: with_default_score_def py_get_def dict_get_def map_add_def split: option.splits)

lemma render_doc_default: "render_doc i (with_default_score d) = render_doc i d"
  by (simp add: render_doc_def get_score_default get_text_default)

lemma render_docs_default: "render_docs i (map with_default_score ds) = render_docs i ds"
  by (induction ds arbitrary: i) (simp_all add: render_doc_default)

lemma keys_default:
  "map_raise (\<lambda>x. py_get x (ustr ''score'') (PInt 0)) (map with_default_score docs) =
   map_raise (\<lambda>x. py_get x (ustr ''score'') (PInt 0)) docs"
  by (induction docs) (simp_all add: get_score_default cong: sum.case_cong)

lemma slice_to_map: "slice_to (map f xs) k = map f (slice_to xs k)"
  by (simp add: slice_to_def take_map)

lemma format_rag_docs_default:
  "format_rag_docs (map with_default_score docs) k = format_rag_docs docs k"
proof (cases "map_raise (\<lambda>x. py_get x (ustr ''score'') (PInt 0)) docs")
  case (Inl e)
  then show ?thesis by (simp add: format_rag_docs_def keys_default bind_def)
next
  case (Inr keys)
  show ?thesis
  proof (cases "py_sorted_reverse (zip keys docs)")
    case (Inl e)
    with Inr show ?thesis
      by (simp add: format_rag_docs_def keys_default bind_def py_sorted_reverse_map)
  next
    case sorted: (Inr sorted_docs)
    with Inr show ?thesis
      by (simp add: format_rag_docs_def keys_default bind_def py_sorted_reverse_map
          slice_to_map render_docs_default)
  qed
qed

text \<open>
  C8, amended. \<open>format_rag_docs\<close> raises nothing on well-formed hits, for every bound
  (negative ones included). For every list, well formed or not, an absent score is a
  score of 0: giving the score 0 to each object that has none changes nothing in what
  \<open>format_rag_docs\<close> returns or raises. A score that is a string is not coerced: for a list
  of one object whose text is a string that is not blank and whose score is a string,
  and a positive bound, the format \<open>.3f\<close> raises \<open>ValueError\<close>; for a list of two objects,
  the first with a score that is a string and the second with a score as in a
  well-formed hit (or none), the comparison of the two scores raises \<open>TypeError\<close>, for
  every bound.
\<close>

theorem format_rag_docs_total_on_hits:
  "((\<forall>d \<in> set docs. well_formed_hit d) \<longrightarrow> (\<exists>out. format_rag_docs docs k = Inr out)) \<and>
   format_rag_docs (map with_default_score docs) k = format_rag_docs docs k \<and>
   (map_of kvs (ustr ''text'') = Some (PStr t) \<and> py_strip t \<noteq> [] \<and>
    map_of kvs (ustr ''score'') = Some (PStr s) \<and> 0 < k \<longrightarrow>
      format_rag_docs [PDict kvs] k =
        Inl (ValueError (ustr ''Unknown format code '' @ quoted (ustr ''f'') @
                         ustr '' for object of type '' @ quoted (ustr ''str'')))) \<and>
   (map_of kvs (ustr ''score'') = Some (PStr s) \<and> is_score (dict_get kvs' (ustr ''score'') (PInt 0)) \<longrightarrow>
      format_rag_docs [PDict kvs, PDict kvs'] k =
        Inl (TypeError (quoted (ustr ''<'') @ ustr '' not supported between instances of '' @
                        quoted (ustr ''str'') @ ustr '' and '' @
                        quoted (type_name (dict_get kvs' (ustr ''score'') (PInt 0))))))"
proof -
  have 1: "(\<forall>d \<in> set docs. well_formed_hit d) \<longrightarrow> (\<exists>out. format_rag_docs docs k = Inr out)"
  proof
    assume wf: "\<forall>d \<in> set docs. well_formed_hit d"
    have sc: "\<forall>d \<in> set docs. is_score (doc_score d)"
      using wf wf_get_score by blast
    have sorted: "py_sorted_reverse (zip (map doc_score docs) docs) =
                  Inr (sort_key (\<lambda>d. - score_val d) docs)"
      using py_sorted_reverse_scores [OF sc] by (simp add: score_val_def)
    have "set (slice_to (sort_key (\<lambda>d. - score_val d) docs) k) \<subseteq> set docs"
      using set_slice_to [of "sort_key (\<lambda>d. - score_val d) docs" k] by simp
    with wf have top: "\<forall>d \<in> set (slice_to (sort_key (\<lambda>d. - score_val d) docs) k). well_formed_hit d"
      by blast
    show "\<exists>out. format_rag_docs docs k = Inr out"
      by (simp add: format_rag_docs_def keys_of_hits [OF wf] sorted render_docs_hits [OF top] bind_def)
  qed
  have 2: "format_rag_docs (map with_default_score docs) k = format_rag_docs docs k"
    by (rule format_rag_docs_default)
  have 3: "map_of kvs (ustr ''text'') = Some (PStr t) \<and> py_strip t \<noteq> [] \<and>
    map_of kvs (ustr ''score'') = Some (PStr s) \<and> 0 < k \<longrightarrow>
      format_rag_docs [PDict kvs] k =
        Inl (ValueError (ustr ''Unknown format code '' @ quoted (ustr ''f'') @
                         ustr '' for object of type '' @ quoted (ustr ''str'')))"
    by (simp add: format_rag_docs_def py_get_def dict_get_def bind_def py_sorted_reverse_def
        render_doc_def slice_to_one py_strip_val_def py_format_3f_def)
  have 4: "map_of kvs (ustr ''score'') = Some (PStr s) \<and> is_score (dict_get kvs' (ustr ''score'') (PInt 0)) \<longrightarrow>
      format_rag_docs [PDict kvs, PDict kvs'] k =
        Inl (TypeError (quoted (ustr ''<'') @ ustr '' not supported between instances of '' @
                        quoted (ustr ''str'') @ ustr '' and '' @
                        quoted (type_name (dict_get kvs' (ustr ''score'') (PInt 0)))))"
  proof
    assume a: "map_of kvs (ustr ''score'') = Some (PStr s) \<and> is_score (dict_get kvs' (ustr ''score'') (PInt 0))"
    then have "py_lt (PStr s) (dict_get kvs' (ustr ''score'') (PInt 0)) =
        Inl (not_supported (PStr s) (dict_get kvs' (ustr ''score'') (PInt 0)))"
      by (cases "dict_get kvs' (ustr ''score'') (PInt 0)") (simp_all add: is_score_def)
    with a show "format_rag_docs [PDict kvs, PDict kvs'] k =
        Inl (TypeError (quoted (ustr ''<'') @ ustr '' not supported between instances of '' @
                        quoted (ustr ''str'') @ ustr '' and '' @
                        quoted (type_name (dict_get kvs' (ustr ''score'') (PInt 0)))))"
      by (simp add: format_rag_docs_def py_get_def bind_def py_sorted_reverse_def not_supported_def
          dict_get_def [of kvs])
  qed
  from 1 2 3 4 show ?thesis by blast
qed

theorem format_rag_docs_total_on_hits_witness:
  "format_rag_docs [PDict [(ustr ''text'', PStr (ustr '' A ''))]] 5 =
     Inr (ustr ''[Doc 1 (relevance: 0.000)]:'' @ [10] @ ustr ''A'') \<and>
   format_rag_docs [PDict [(ustr ''text'', PStr (ustr '' A '')), (ustr ''score'', PInt 0)]] 5 =
     format_rag_docs [PDict [(ustr ''text'', PStr (ustr '' A ''))]] 5 \<and>
   format_rag_docs [PDict [(ustr ''text'', PStr (ustr ''B'')), (ustr ''score'', PStr (ustr ''0.9''))]] 5 =
     Inl (ValueError (ustr ''Unknown format code '' @ quoted (ustr ''f'') @
                      ustr '' for object of type '' @ quoted (ustr ''str''))) \<and>
   format_rag_docs [PDict [(ustr ''score'', PStr (ustr ''0.9''))], PDict [(ustr ''text'', PStr (ustr ''B''))]] 5 =
     Inl (TypeError (quoted (ustr ''<'') @ ustr '' not supported between instances of '' @
                     quoted (ustr ''str'') @ ustr '' and '' @ quoted (ustr ''int'')))"
proof -
  let ?a = "PDict [(ustr ''text'', PStr (ustr '' A ''))]"
  let ?kb = "[(ustr ''text'', PStr (ustr ''B'')), (ustr ''score'', PStr (ustr ''0.9''))]"
  let ?kc = "[(ustr ''score'', PStr (ustr ''0.9''))]"
  let ?kd = "[(ustr ''text'', PStr (ustr ''B''))]"
  have wf: "\<forall>d \<in> set [?a]. well_formed_hit d"
    by (simp add: well_formed_hit_def is_score_def dict_get_def ustr_def float_of_int_def to_binary64_def)
  have d: "map with_default_score [?a] =
           [PDict [(ustr ''text'', PStr (ustr '' A '')), (ustr ''score'', PInt 0)]]"
    by (simp add: with_default_score_def ustr_def)
  have b: "py_strip (ustr ''B'') \<noteq> []"
    by (simp add: py_strip_nonspace py_isspace_def ustr_def)
  have s: "is_score (dict_get ?kd (ustr ''score'') (PInt 0))"
    by (simp add: is_score_def dict_get_def ustr_def float_of_int_def to_binary64_def)
  have n: "type_name (dict_get ?kd (ustr ''score'') (PInt 0)) = ustr ''int''"
    by (simp add: dict_get_def ustr_def)
  note t = format_rag_docs_total_on_hits [where docs = "[?a]" and k = 5 and kvs = ?kb
      and t = "ustr ''B''" and s = "ustr ''0.9''"]
  note u = format_rag_docs_total_on_hits [where docs = "[?a]" and k = 5 and kvs = ?kc
      and s = "ustr ''0.9''" and kvs' = ?kd]
  from t wf have 1: "format_rag_docs [?a] 5 = Inr (ustr ''[Doc 1 (relevance: 0.000)]:'' @ [10] @ ustr ''A'')"
    by (simp add: docs_eval fl_eval ustr_def)
  from t have 2: "format_rag_docs (map with_default_score [?a]) 5 = format_rag_docs [?a] 5"
    by blast
  from t b have 3: "format_rag_docs [PDict ?kb] 5 =
     Inl (ValueError (ustr ''Unknown format code '' @ quoted (ustr ''f'') @
                      ustr '' for object of type '' @ quoted (ustr ''str'')))"
    by (simp add: ustr_def)
  from u s have 4: "format_rag_docs [PDict ?kc, PDict ?kd] 5 =
     Inl (TypeError (quoted (ustr ''<'') @ ustr '' not supported between instances of '' @
                     quoted (ustr ''str'') @ ustr '' and '' @
                     quoted (type_name (dict_get ?kd (ustr ''score'') (PInt 0)))))"
    by simp
  from 1 2 [unfolded d] 3 4 [unfolded n] show ?thesis by blast
qed

section \<open>Further properties of the specification\<close>

theorem strict_path_word_count_witness:
  "parse_data example_lib
     (PDict [(ustr ''explanations'', PList [PStr (ustr ''a b c d e f g h i j k l m n o p q'')])]) =
     Inr \<lparr>bug_lines = [[]], explanations = [ustr ''a b c d e f g h i j k l m n o''],
          corrected_code = PStr []\<rparr> \<and>
   length (py_split (ustr ''a b c d e f g h i j k l m n o'')) \<le> 15"
proof -
  have h: "parse_data example_lib
     (PDict [(ustr ''explanations'', PList [PStr (ustr ''a b c d e f g h i j k l m n o p q'')])]) =
     Inr \<lparr>bug_lines = [[]], explanations = [ustr ''a b c d e f g h i j k l m n o''],
          corrected_code = PStr []\<rparr>"
    by (simp add: ustr_def parse_eval py_isspace_def)
  from strict_path_word_count [OF h] h show ?thesis by simp
qed

text \<open>
  A reply for which \<open>json.loads\<close> raises is parsed by the fallback parser, on the reply as
  it was received; the prose reply of the specification is an instance.
\<close>

theorem decode_failure_uses_fallback:
  "py_strip response \<noteq> [] \<Longrightarrow> json_loads (candidate response) = None \<Longrightarrow>
   parse_llm_response L response = Inr (fallback_parse response)"
  by (rule decode_failure_falls_back)

theorem decode_failure_uses_fallback_witness:
  "parse_llm_response example_lib (ustr ''Line 5: wrong pin name D0 vs DO'') =
     Inr (fallback_parse (ustr ''Line 5: wrong pin name D0 vs DO'')) \<and>
   fallback_parse (ustr ''Line 5: wrong pin name D0 vs DO'') =
     \<lparr>bug_lines = [ustr ''5''], explanations = [ustr ''wrong pin name D0 vs DO''],
      corrected_code = PStr []\<rparr>"
proof -
  have 1: "py_strip (ustr ''Line 5: wrong pin name D0 vs DO'') \<noteq> []"
    by (simp add: ustr_def py_strip_nonspace py_isspace_def)
  have 2: "json_loads (candidate (ustr ''Line 5: wrong pin name D0 vs DO'')) = None"
    by (simp add: ustr_def re_eval json_eval)
  have 3: "fallback_parse (ustr ''Line 5: wrong pin name D0 vs DO'') =
     \<lparr>bug_lines = [ustr ''5''], explanations = [ustr ''wrong pin name D0 vs DO''],
      corrected_code = PStr []\<rparr>"
    by (simp add: ustr_def re_eval)
  from decode_failure_uses_fallback [OF 1 2, of example_lib] 3 show ?thesis by simp
qed

text \<open>The fenced reply of the specification.\<close>

theorem fenced_reply:
  "parse_llm_response L (ustr ''```json'' @ [10] @
      ustr ''{\"bug_lines\":[3],\"explanations\":[\"iClamp args swapped\"],\"corrected_code\":\"iClamp(-50,50);\"}'' @
      [10] @ ustr ''```'') =
     Inr \<lparr>bug_lines = [ustr ''3''],
          explanations = [ustr ''iClamp args swapped''],
          corrected_code = PStr (ustr ''iClamp(-50,50);'')\<rparr>"
  by (rule example_fenced)

text \<open>An empty reply, and a reply of whitespace, give the default result.\<close>

theorem blank_reply:
  "parse_llm_response L [] = Inr default_result \<and>
   parse_llm_response L (ustr ''  '' @ [10, 9]) = Inr default_result \<and>
   default_result = \<lparr>bug_lines = [], explanations = [], corrected_code = PStr []\<rparr>"
  by (simp add: parse_llm_response_def default_result_def py_strip_def py_isspace_def ustr_def)

text \<open>No hits, no evidence text.\<close>

theorem format_rag_docs_empty: "format_rag_docs [] max_docs = Inr []"
  by (simp add: format_rag_docs_def)

text \<open>
  The prompt leaves a section out when its text is blank, and the number of a line is
  its index plus one.
\<close>

theorem blank_sections_omitted:
  "py_strip rag_docs = [] \<Longrightarrow> py_strip static_errors = [] \<Longrightarrow>
   rag_section rag_docs = [] \<and> static_section static_errors = []"
  by (simp add: rag_section_def static_section_def)

theorem blank_sections_omitted_witness:
  "rag_section (ustr ''  '') = [] \<and> static_section [] = []"
proof -
  have 1: "py_strip (ustr ''  '') = []" by (simp add: py_strip_def py_isspace_def ustr_def)
  have 2: "py_strip [] = []" by (simp add: py_strip_def)
  from blank_sections_omitted [OF 1 2] show ?thesis .
qed

theorem line_numbering:
  "add_line_numbers code =
     join [10] (map (\<lambda>(i, line). dec_nat (i + 1) @ ustr '': '' @ line) (enumerate 0 (split_on 10 code)))"
proof -
  have "number_lines i ls = map (\<lambda>(i, line). dec_nat (i + 1) @ ustr '': '' @ line) (enumerate i ls)"
    for i ls
    by (induction ls arbitrary: i) simp_all
  then show ?thesis by (simp add: add_line_numbers_def)
qed

text \<open>A failure of the search tool is absorbed: the step has no documents.\<close>

theorem search_failure_absorbed:
  "call_tool W query = Inl e \<Longrightarrow> search_docs W query = []"
  by (simp add: search_docs_def)

theorem search_failure_absorbed_witness:
  "search_docs ((quiet_world (ok_response PNone))
      \<lparr>call_tool := (\<lambda>q. Inl (External (ustr ''ToolError'') (ustr ''server unreachable'')))\<rparr>)
      (ustr ''run the burst'') = []"
proof -
  let ?W = "(quiet_world (ok_response PNone))
      \<lparr>call_tool := (\<lambda>q. Inl (External (ustr ''ToolError'') (ustr ''server unreachable'')))\<rparr>"
  have 1: "call_tool ?W (ustr ''run the burst'') =
           Inl (External (ustr ''ToolError'') (ustr ''server unreachable''))"
    by (simp add: quiet_world_def)
  from search_failure_absorbed [OF 1] show ?thesis .
qed

end
